theory Spec2Isabelle
  imports Main "HOL-Library.Sublist"
begin

section \<open>Strings\<close>

text \<open>
  A Python \<open>str\<close> is modelled as a HOL \<open>string\<close>: a list of characters, each character
  standing for one code point below 256. On that range the regular-expression class
  \<open>\d\<close> is exactly the ten ASCII digits and \<open>str.isspace\<close> holds for the code points
  9 to 13, 28 to 32, 133 and 160.
\<close>

text \<open>\<open>needle in hay\<close> on strings: some position of \<open>hay\<close> starts with \<open>needle\<close>.\<close>

fun str_contains :: "string \<Rightarrow> string \<Rightarrow> bool" where
  "str_contains needle [] = (needle = [])"
| "str_contains needle (c # cs) = (prefix needle (c # cs) \<or> str_contains needle cs)"

definition is_space :: "char \<Rightarrow> bool" where
  "is_space c = ((of_char c :: nat) \<in> set [9, 10, 11, 12, 13, 28, 29, 30, 31, 32, 133, 160])"

text \<open>\<open>s.strip()\<close>: leading and trailing whitespace removed.\<close>

definition str_strip :: "string \<Rightarrow> string" where
  "str_strip s = rev (dropWhile is_space (rev (dropWhile is_space s)))"

text \<open>\<open>s.replace(old, new)\<close> for one-character \<open>old\<close> and \<open>new\<close>.\<close>

definition str_replace :: "char \<Rightarrow> char \<Rightarrow> string \<Rightarrow> string" where
  "str_replace old new s = map (\<lambda>c. if c = old then new else c) s"

definition is_digit :: "char \<Rightarrow> bool" where
  "is_digit c = (c \<in> set ''0123456789'')"

section \<open>Platform detection\<close>

text \<open>
  The two platform tags \<open>'google_play'\<close> and \<open>'app_store'\<close>; Python's \<open>None\<close> is the
  \<open>None\<close> of \<open>platform option\<close>.
\<close>

datatype platform = google_play | app_store

definition detect_platform :: "string \<Rightarrow> platform option" where
  "detect_platform url =
     (if str_contains ''play.google.com'' url then Some google_play
      else if str_contains ''apps.apple.com'' url \<or> str_contains ''itunes.apple.com'' url
        then Some app_store
      else None)"

section \<open>Identifier extraction\<close>

text \<open>
  \<open>re.search(pattern, url)\<close> tries the pattern at every position of the string from
  left to right, the end of the string included, and returns the first match.
  \<open>re_search m s\<close> does so for a pattern given by its matcher \<open>m\<close> at one position.
\<close>

fun re_search :: "(string \<Rightarrow> 'a option) \<Rightarrow> string \<Rightarrow> 'a option" where
  "re_search m [] = m []"
| "re_search m (c # cs) =
     (case m (c # cs) of Some g \<Rightarrow> Some g | None \<Rightarrow> re_search m cs)"

text \<open>
  The pattern \<open>id=([^&]+)\<close> at one position: the literal \<open>id=\<close>, then the longest
  run of characters other than \<open>&\<close>, which must not be empty. The result is group 1.
\<close>

definition match_id_eq :: "string \<Rightarrow> string option" where
  "match_id_eq s =
     (if prefix ''id='' s
      then (let g = takeWhile (\<lambda>c. c \<noteq> CHR ''&'') (drop 3 s)
            in if g = [] then None else Some g)
      else None)"

text \<open>
  The pattern \<open>id(\d+)\<close> at one position: the literal \<open>id\<close>, then the longest run of
  digits, which must not be empty.
\<close>

definition match_id_digits :: "string \<Rightarrow> string option" where
  "match_id_digits s =
     (if prefix ''id'' s
      then (let g = takeWhile is_digit (drop 2 s)
            in if g = [] then None else Some g)
      else None)"

definition extract_app_id :: "string \<Rightarrow> platform option \<Rightarrow> string option" where
  "extract_app_id url platform =
     (case platform of
        Some google_play \<Rightarrow> re_search match_id_eq url
      | Some app_store \<Rightarrow> re_search match_id_digits url
      | None \<Rightarrow> None)"

section \<open>Dates and numbers as text\<close>

text \<open>\<open>str(n)\<close> for a natural number: its decimal digits.\<close>

fun show_nat :: "nat \<Rightarrow> string" where
  "show_nat n =
     (if n < 10 then [''0123456789'' ! n]
      else show_nat (n div 10) @ [''0123456789'' ! (n mod 10)])"

declare show_nat.simps [simp del]

definition pad2 :: "nat \<Rightarrow> string" where
  "pad2 n = (if n < 10 then CHR ''0'' # show_nat n else show_nat n)"

text \<open>
  The value of \<open>datetime.now()\<close>, to the second. The two formats the program uses are
  given for four-digit years, which is what a running clock returns.
\<close>

record datetime =
  year :: nat
  month :: nat
  day :: nat
  hour :: nat
  minute :: nat
  second :: nat

text \<open>\<open>d.strftime('%Y-%m-%d %H:%M:%S')\<close>\<close>

definition strftime_iso :: "datetime \<Rightarrow> string" where
  "strftime_iso d =
     show_nat (year d) @ ''-'' @ pad2 (month d) @ ''-'' @ pad2 (day d) @ '' '' @
     pad2 (hour d) @ '':'' @ pad2 (minute d) @ '':'' @ pad2 (second d)"

text \<open>\<open>d.strftime('%Y%m%d_%H%M%S')\<close>\<close>

definition strftime_compact :: "datetime \<Rightarrow> string" where
  "strftime_compact d =
     show_nat (year d) @ pad2 (month d) @ pad2 (day d) @ ''_'' @
     pad2 (hour d) @ pad2 (minute d) @ pad2 (second d)"

text \<open>
  The values a running clock returns: a calendar date with a four-digit year and a
  time of day.
\<close>

definition valid_datetime :: "datetime \<Rightarrow> bool" where
  "valid_datetime d =
     (1000 \<le> year d \<and> year d \<le> 9999 \<and> 1 \<le> month d \<and> month d \<le> 12 \<and>
      1 \<le> day d \<and> day d \<le> 31 \<and> hour d < 24 \<and> minute d < 60 \<and> second d < 60)"

text \<open>The number a string of decimal digits stands for.\<close>

definition digit_value :: "char \<Rightarrow> nat" where
  "digit_value c = of_char c - 48"

definition read_nat :: "string \<Rightarrow> nat" where
  "read_nat s = foldl (\<lambda>n c. 10 * n + digit_value c) 0 s"

section \<open>Records and the outside world\<close>

text \<open>
  One normalised review: the dictionary the fetchers build, with its keys in the
  order in which every one of them writes them.
\<close>

record review_record =
  app_name :: string
  reviewer_name :: string
  rating :: int
  review_text :: string
  review_date :: string
  helpful_count :: int
  platform :: string

text \<open>
  Exceptions below \<open>Exception\<close>. \<open>ImportError\<close> has a handler of its own in the
  fetchers, \<open>ValueError\<close> is what \<open>scrape_reviews\<close> raises. \<open>exn_str\<close> is \<open>str(e)\<close>.
\<close>

datatype exn = ImportError string | ValueError string | OtherError string

fun exn_str :: "exn \<Rightarrow> string" where
  "exn_str (ImportError m) = m"
| "exn_str (ValueError m) = m"
| "exn_str (OtherError m) = m"

text \<open>
  The library \<open>google_play_scraper\<close>: \<open>app(app_id)\<close> returns the app's metadata, of
  which the program reads \<open>title\<close>; \<open>reviews_all(app_id, ...)\<close>, called with fixed
  options, returns the raw reviews. Either call may raise.
\<close>

record app_info =
  title :: string

record gp_review =
  gp_userName :: string
  gp_score :: int
  gp_content :: string
  gp_at :: datetime
  gp_thumbsUpCount :: int

record gp_module =
  gp_app :: "string \<Rightarrow> exn + app_info"
  gp_reviews_all :: "string \<Rightarrow> exn + gp_review list"

text \<open>
  The library \<open>app_store_scraper\<close>: \<open>as_AppStore_review country app_id how_many\<close> is
  \<open>AppStore(country=country, app_id=app_id)\<close> followed by \<open>review(how_many=how_many)\<close>; it
  raises or leaves a scraper object with an \<open>app_name\<close> (possibly \<open>None\<close>) and its
  \<open>reviews\<close>, whose \<open>date\<close> may be \<open>None\<close>.
\<close>

record as_review =
  as_userName :: string
  as_rating :: int
  as_review_body :: string
  as_date :: "datetime option"

record as_scraper =
  as_app_name :: "string option"
  as_reviews :: "as_review list"

record as_module =
  as_AppStore_review :: "string \<Rightarrow> string \<Rightarrow> int \<Rightarrow> exn + as_scraper"

text \<open>
  What the program reads from or does to the outside: the result of importing each
  library (an exception or the module), \<open>urlparse\<close> (an exception or the scheme and
  the network location of the URL), the clock, \<open>now env k\<close> being the value of the
  \<open>(k+1)\<close>-th call of \<open>datetime.now()\<close> during a request, and the file write
  \<open>pd.DataFrame(reviews).to_csv(filepath, index=False, encoding='utf-8')\<close>, which
  raises (a path the file system refuses, a full disk) or returns. Functions that read
  the clock take the number of calls made so far and return it updated. Log output is
  not modelled.
\<close>

record env =
  google_play_scraper :: "exn + gp_module"
  app_store_scraper :: "exn + as_module"
  urlparse :: "string \<Rightarrow> exn + (string \<times> string)"
  now :: "nat \<Rightarrow> datetime"
  to_csv :: "string \<Rightarrow> review_record list \<Rightarrow> exn option"

section \<open>The review fetchers\<close>

definition platform_name :: "platform \<Rightarrow> string" where
  "platform_name p = (if p = google_play then ''Google Play Store'' else ''Apple App Store'')"

definition demo_review ::
  "string \<Rightarrow> string \<Rightarrow> int \<Rightarrow> string \<Rightarrow> datetime \<Rightarrow> int \<Rightarrow> string \<Rightarrow> review_record" where
  "demo_review app_id user stars txt d helpful pname =
     \<lparr> app_name = ''Demo App ('' @ app_id @ '')'',
       reviewer_name = user,
       rating = stars,
       review_text = txt,
       review_date = strftime_iso d,
       helpful_count = helpful,
       platform = pname \<rparr>"

text \<open>\<open>_get_demo_data(platform, app_id)\<close>; it reads the clock three times.\<close>

definition get_demo_data :: "env \<Rightarrow> platform \<Rightarrow> string \<Rightarrow> nat \<Rightarrow> review_record list \<times> nat" where
  "get_demo_data e p app_id k =
     ([ demo_review app_id ''Demo User 1'' 5
          ''Great app! Works perfectly and has a beautiful interface.''
          (now e k) 15 (platform_name p),
        demo_review app_id ''Demo User 2'' 4
          ''Very useful app. The yellow theme looks amazing!''
          (now e (k + 1)) 8 (platform_name p),
        demo_review app_id ''Demo User 3'' 5
          ''Excellent functionality and easy to use. Highly recommended!''
          (now e (k + 2)) 22 (platform_name p) ],
      k + 3)"

text \<open>
  \<open>result[:m]\<close> for an integer \<open>m\<close>: the first \<open>m\<close> elements, and for a negative \<open>m\<close>
  all but the last \<open>-m\<close>.
\<close>

definition slice_to :: "int \<Rightarrow> 'a list \<Rightarrow> 'a list" where
  "slice_to m xs = (if 0 \<le> m then take (nat m) xs else take (nat (int (length xs) + m)) xs)"

text \<open>
  \<open>if max_reviews and len(result) > max_reviews: result = result[:max_reviews]\<close>, for
  \<open>max_reviews\<close> an integer or \<open>None\<close>.
\<close>

definition limit_reviews :: "int option \<Rightarrow> 'a list \<Rightarrow> 'a list" where
  "limit_reviews max_reviews result =
     (case max_reviews of
        None \<Rightarrow> result
      | Some m \<Rightarrow> if m \<noteq> 0 \<and> int (length result) > m then slice_to m result else result)"

definition gp_record :: "string \<Rightarrow> gp_review \<Rightarrow> review_record" where
  "gp_record name review =
     \<lparr> app_name = name,
       reviewer_name = gp_userName review,
       rating = gp_score review,
       review_text = gp_content review,
       review_date = strftime_iso (gp_at review),
       helpful_count = gp_thumbsUpCount review,
       platform = ''Google Play Store'' \<rparr>"

text \<open>The body of the \<open>try\<close> of \<open>scrape_google_play_reviews\<close>.\<close>

definition google_play_try :: "env \<Rightarrow> string \<Rightarrow> int option \<Rightarrow> exn + review_record list" where
  "google_play_try e app_id max_reviews =
     (case google_play_scraper e of
        Inl err \<Rightarrow> Inl err
      | Inr m \<Rightarrow>
          (case gp_app m app_id of
             Inl err \<Rightarrow> Inl err
           | Inr info \<Rightarrow>
               (case gp_reviews_all m app_id of
                  Inl err \<Rightarrow> Inl err
                | Inr result \<Rightarrow>
                    Inr (map (gp_record (title info)) (limit_reviews max_reviews result)))))"

definition scrape_google_play_reviews ::
  "env \<Rightarrow> string \<Rightarrow> int option \<Rightarrow> nat \<Rightarrow> review_record list \<times> nat" where
  "scrape_google_play_reviews e app_id max_reviews k =
     (case google_play_try e app_id max_reviews of
        Inr reviews \<Rightarrow> (reviews, k)
      | Inl (ImportError _) \<Rightarrow> get_demo_data e google_play app_id k
      | Inl _ \<Rightarrow> get_demo_data e google_play app_id k)"

definition as_record :: "string \<Rightarrow> as_review \<Rightarrow> review_record" where
  "as_record name review =
     \<lparr> app_name = name,
       reviewer_name = as_userName review,
       rating = as_rating review,
       review_text = as_review_body review,
       review_date = (case as_date review of Some d \<Rightarrow> strftime_iso d | None \<Rightarrow> []),
       helpful_count = 0,
       platform = ''Apple App Store'' \<rparr>"

text \<open>\<open>max_reviews or 500\<close>\<close>

definition how_many :: "int option \<Rightarrow> int" where
  "how_many max_reviews =
     (case max_reviews of None \<Rightarrow> 500 | Some m \<Rightarrow> if m = 0 then 500 else m)"

text \<open>\<open>scraper.app_name or f"App ID {app_id}"\<close>\<close>

definition as_name :: "as_scraper \<Rightarrow> string \<Rightarrow> string" where
  "as_name scraper app_id =
     (case as_app_name scraper of
        None \<Rightarrow> ''App ID '' @ app_id
      | Some n \<Rightarrow> if n = [] then ''App ID '' @ app_id else n)"

text \<open>The body of the \<open>try\<close> of \<open>scrape_app_store_reviews\<close>.\<close>

definition app_store_try :: "env \<Rightarrow> string \<Rightarrow> int option \<Rightarrow> exn + review_record list" where
  "app_store_try e app_id max_reviews =
     (case app_store_scraper e of
        Inl err \<Rightarrow> Inl err
      | Inr m \<Rightarrow>
          (case as_AppStore_review m ''us'' app_id (how_many max_reviews) of
             Inl err \<Rightarrow> Inl err
           | Inr scraper \<Rightarrow>
               Inr (map (as_record (as_name scraper app_id)) (as_reviews scraper))))"

definition scrape_app_store_reviews ::
  "env \<Rightarrow> string \<Rightarrow> int option \<Rightarrow> nat \<Rightarrow> review_record list \<times> nat" where
  "scrape_app_store_reviews e app_id max_reviews k =
     (case app_store_try e app_id max_reviews of
        Inr reviews \<Rightarrow> (reviews, k)
      | Inl (ImportError _) \<Rightarrow> get_demo_data e app_store app_id k
      | Inl _ \<Rightarrow> get_demo_data e app_store app_id k)"

definition scrape_reviews ::
  "env \<Rightarrow> string \<Rightarrow> int option \<Rightarrow> nat \<Rightarrow> exn + (review_record list \<times> nat)" where
  "scrape_reviews e url max_reviews k =
     (case detect_platform url of
        None \<Rightarrow>
          Inl (ValueError
            ''Unsupported URL. Please provide a Google Play Store or Apple App Store URL.'')
      | Some p \<Rightarrow>
          (case extract_app_id url (Some p) of
             None \<Rightarrow> Inl (ValueError ''Could not extract app ID from URL.'')
           | Some app_id \<Rightarrow>
               if app_id = [] then Inl (ValueError ''Could not extract app ID from URL.'')
               else if p = google_play
                 then Inr (scrape_google_play_reviews e app_id max_reviews k)
                 else Inr (scrape_app_store_reviews e app_id max_reviews k)))"

section \<open>The scrape endpoint\<close>

text \<open>
  The JSON body of \<open>POST /scrape\<close>, \<open>{url: string, max_reviews?: integer}\<close>: each key may
  be missing, and \<open>max_reviews\<close> may be \<open>null\<close>.
\<close>

record request =
  url_field :: "string option"
  max_reviews_field :: "int option option"

record scrape_result =
  message :: string
  filename :: string
  review_count :: nat
  scraped_app_name :: string

datatype json_body = Error string | Success scrape_result

record http_response =
  status :: nat
  body :: json_body

definition error_response :: "nat \<Rightarrow> string \<Rightarrow> http_response \<times> (string \<times> review_record list) option" where
  "error_response code msg = (\<lparr> status = code, body = Error msg \<rparr>, None)"

text \<open>
  \<open>reviews[0]['app_name'].replace(' ', '_').replace('/', '_')[:50]\<close>
\<close>

definition sanitize :: "string \<Rightarrow> string" where
  "sanitize name = take 50 (str_replace CHR ''/'' CHR ''_'' (str_replace CHR '' '' CHR ''_'' name))"

definition make_filename :: "string \<Rightarrow> datetime \<Rightarrow> string" where
  "make_filename name d = ''reviews_'' @ sanitize name @ ''_'' @ strftime_compact d @ ''.csv''"

text \<open>
  The handler of \<open>POST /scrape\<close>. It returns the response and, when it got as far
  as the file write, the path and the rows it handed to the CSV writer. A
  \<open>ValueError\<close> of \<open>scrape_reviews\<close> and an exception of the file write reach the
  handler's last \<open>except Exception\<close>.
\<close>

definition scrape :: "env \<Rightarrow> request \<Rightarrow> http_response \<times> (string \<times> review_record list) option" where
  "scrape e req =
     (let url = str_strip (case url_field req of None \<Rightarrow> [] | Some u \<Rightarrow> u);
          max_reviews = (case max_reviews_field req of None \<Rightarrow> Some 500 | Some m \<Rightarrow> m)
      in if url = [] then error_response 400 ''URL is required''
         else
           (case urlparse e url of
              Inl _ \<Rightarrow> error_response 400 ''Invalid URL format''
            | Inr (scheme, netloc) \<Rightarrow>
                if scheme = [] \<or> netloc = [] then error_response 400 ''Invalid URL format''
                else
                  (case scrape_reviews e url max_reviews 0 of
                     Inl err \<Rightarrow> error_response 500 (exn_str err)
                   | Inr (reviews, k) \<Rightarrow>
                       (case reviews of
                          [] \<Rightarrow> error_response 404 ''No reviews found or unable to scrape''
                        | r # _ \<Rightarrow>
                            (let fname = make_filename (app_name r) (now e k);
                                 filepath = ''/tmp/'' @ fname
                             in (case to_csv e filepath reviews of
                                   Some err \<Rightarrow>
                                     (\<lparr> status = 500, body = Error (exn_str err) \<rparr>,
                                      Some (filepath, reviews))
                                 | None \<Rightarrow>
                                     (\<lparr> status = 200,
                                        body = Success
                                          \<lparr> message = ''Successfully scraped '' @
                                              show_nat (length reviews) @ '' reviews'',
                                            filename = fname,
                                            review_count = length reviews,
                                            scraped_app_name = app_name r \<rparr> \<rparr>,
                                      Some (filepath, reviews))))))))"

text \<open>
  Names for what the handler computes first: the URL it works on, the maximum it
  passes on, and whether the URL passes its checks (not empty, and \<open>urlparse\<close> finds
  a scheme and a network location).
\<close>

definition request_url :: "request \<Rightarrow> string" where
  "request_url req = str_strip (case url_field req of None \<Rightarrow> [] | Some u \<Rightarrow> u)"

definition request_max_reviews :: "request \<Rightarrow> int option" where
  "request_max_reviews req = (case max_reviews_field req of None \<Rightarrow> Some 500 | Some m \<Rightarrow> m)"

definition well_formed :: "env \<Rightarrow> string \<Rightarrow> bool" where
  "well_formed e url =
     (url \<noteq> [] \<and>
      (case urlparse e url of
         Inl _ \<Rightarrow> False
       | Inr (scheme, netloc) \<Rightarrow> scheme \<noteq> [] \<and> netloc \<noteq> []))"

section \<open>Notions of the specification\<close>




text \<open>\<open>id\<close> directly followed by a digit occurs in the string.\<close>

definition has_id_digit :: "string \<Rightarrow> bool" where
  "has_id_digit s = (\<exists>c \<in> set ''0123456789''. str_contains (''id'' @ [c]) s)"

section \<open>Example surroundings\<close>

text \<open>
  Concrete surroundings on which the theorems below are instantiated: a clock, a
  stand-in for \<open>urlparse\<close> that splits \<open>scheme://netloc/...\<close> (no scheme and no
  network location when \<open>://\<close> is missing), a file write that refuses a path with a
  NUL character, and three states of the two libraries:
  not installed, installed with a failing \<open>app\<close> call, and installed and answering.
\<close>

definition example_clock :: "nat \<Rightarrow> datetime" where
  "example_clock k =
     \<lparr> year = 2026, month = 11, day = 3, hour = 17, minute = 4, second = k \<rparr>"

definition example_urlparse :: "string \<Rightarrow> exn + (string \<times> string)" where
  "example_urlparse url =
     (let scheme = takeWhile (\<lambda>c. c \<noteq> CHR '':'') url;
          rest = drop (length scheme) url
      in if prefix ''://'' rest
         then Inr (scheme, takeWhile (\<lambda>c. c \<notin> set ''/?#'') (drop 3 rest))
         else Inr ([], []))"

definition example_to_csv :: "string \<Rightarrow> review_record list \<Rightarrow> exn option" where
  "example_to_csv path rows =
     (if CHR 0x00 \<in> set path then Some (ValueError ''embedded null byte'') else None)"

definition example_offline :: env where
  "example_offline =
     \<lparr> google_play_scraper = Inl (ImportError ''No module named google_play_scraper''),
       app_store_scraper = Inl (ImportError ''No module named app_store_scraper''),
       urlparse = example_urlparse,
       now = example_clock,
       to_csv = example_to_csv \<rparr>"

definition example_gp_reviews :: "gp_review list" where
  "example_gp_reviews =
     [ \<lparr> gp_userName = ''Ada'', gp_score = 5, gp_content = ''Fast and tidy'',
         gp_at = example_clock 10, gp_thumbsUpCount = 3 \<rparr>,
       \<lparr> gp_userName = ''Grace'', gp_score = 2, gp_content = ''Crashes, often'',
         gp_at = example_clock 20, gp_thumbsUpCount = 0 \<rparr>,
       \<lparr> gp_userName = ''Edsger'', gp_score = 4, gp_content = ''Good'',
         gp_at = example_clock 30, gp_thumbsUpCount = 7 \<rparr> ]"

definition example_as_reviews :: "as_review list" where
  "example_as_reviews =
     [ \<lparr> as_userName = ''Alan'', as_rating = 4, as_review_body = ''Does the job'',
         as_date = Some (example_clock 40) \<rparr>,
       \<lparr> as_userName = ''Barbara'', as_rating = 1, as_review_body = ''Not for me'',
         as_date = None \<rparr> ]"

definition example_live :: env where
  "example_live =
     \<lparr> google_play_scraper =
         Inr \<lparr> gp_app = (\<lambda>app_id. Inr \<lparr> title = ''Example App'' \<rparr>),
               gp_reviews_all = (\<lambda>app_id. Inr example_gp_reviews) \<rparr>,
       app_store_scraper =
         Inr \<lparr> as_AppStore_review = (\<lambda>country app_id n.
                 Inr \<lparr> as_app_name = None, as_reviews = example_as_reviews \<rparr>) \<rparr>,
       urlparse = example_urlparse,
       now = example_clock,
       to_csv = example_to_csv \<rparr>"

definition example_failing :: env where
  "example_failing =
     \<lparr> google_play_scraper =
         Inr \<lparr> gp_app = (\<lambda>app_id. Inl (OtherError ''App not found(404).'')),
               gp_reviews_all = (\<lambda>app_id. Inr example_gp_reviews) \<rparr>,
       app_store_scraper =
         Inr \<lparr> as_AppStore_review = (\<lambda>country app_id n.
                 Inl (OtherError ''missing 1 required positional argument'')) \<rparr>,
       urlparse = example_urlparse,
       now = example_clock,
       to_csv = example_to_csv \<rparr>"

section \<open>Properties of the string operations\<close>

lemma str_contains_sublist: "str_contains needle hay = sublist needle hay"
  by (induction hay) (simp_all add: sublist_Cons_right)

lemma str_contains_iff:
  "str_contains needle hay \<longleftrightarrow> (\<exists>pre post. hay = pre @ needle @ post)"
  by (simp add: str_contains_sublist sublist_def)


section \<open>Properties of the pattern search\<close>

lemma re_search_hit: "m s = Some g \<Longrightarrow> re_search m s = Some g"
  by (cases s) simp_all

lemma re_search_skip:
  "(\<And>p2. suffix p2 p \<Longrightarrow> p2 \<noteq> [] \<Longrightarrow> m (p2 @ s) = None)
     \<Longrightarrow> re_search m (p @ s) = re_search m s"
proof (induction p)
  case Nil
  then show ?case by simp
next
  case (Cons c p)
  have here: "m ((c # p) @ s) = None"
    by (rule Cons.prems) simp_all
  have rest: "re_search m (p @ s) = re_search m s"
    by (rule Cons.IH) (simp add: Cons.prems suffix_ConsI)
  from here rest show ?case by simp
qed

lemma re_search_None_iff:
  "re_search m s = None \<longleftrightarrow> (\<forall>t. suffix t s \<longrightarrow> m t = None)"
proof (induction s)
  case Nil
  then show ?case by simp
next
  case (Cons c s)
  then show ?case
    by (auto simp: suffix_Cons split: option.splits)
qed

lemma re_search_Some_suffix:
  "re_search m s = Some g \<Longrightarrow> \<exists>t. suffix t s \<and> m t = Some g"
proof (induction s)
  case Nil
  then show ?case by auto
next
  case (Cons c s)
  then show ?case
    by (fastforce simp: suffix_Cons split: option.splits)
qed

lemma takeWhile_run:
  "(\<And>x. x \<in> set v \<Longrightarrow> P x) \<Longrightarrow> s = [] \<or> \<not> P (hd s) \<Longrightarrow> takeWhile P (v @ s) = v"
  by (cases s) (simp_all add: takeWhile_append2)







lemma match_id_digits_here:
  assumes "d \<noteq> []" "\<forall>c\<in>set d. is_digit c" "rest = [] \<or> \<not> is_digit (hd rest)"
  shows "match_id_digits (''id'' @ d @ rest) = Some d"
proof -
  have "takeWhile is_digit (d @ rest) = d"
    using assms(2,3) by (intro takeWhile_run) auto
  with assms(1) show ?thesis by (simp add: match_id_digits_def)
qed

lemma match_id_digits_shape:
  assumes "match_id_digits t = Some g"
  shows "\<exists>c r. is_digit c \<and> t = ''id'' @ c # r"
proof -
  from assms have p: "prefix ''id'' t" and g: "takeWhile is_digit (drop 2 t) \<noteq> []"
    by (auto simp: match_id_digits_def Let_def split: if_splits)
  from p obtain r0 where t: "t = ''id'' @ r0" by (auto simp: prefix_def)
  with g have "takeWhile is_digit r0 \<noteq> []" by simp
  then obtain c r where "r0 = c # r" "is_digit c"
    by (cases r0) (auto split: if_splits)
  with t show ?thesis by auto
qed

lemma has_id_digit_iff:
  "has_id_digit s \<longleftrightarrow> (\<exists>pre c post. is_digit c \<and> s = pre @ ''id'' @ c # post)"
proof -
  have "has_id_digit s \<longleftrightarrow> (\<exists>c. is_digit c \<and> str_contains (''id'' @ [c]) s)"
    by (simp only: has_id_digit_def is_digit_def Bex_def)
  also have "\<dots> \<longleftrightarrow> (\<exists>c. is_digit c \<and> (\<exists>pre post. s = pre @ (''id'' @ [c]) @ post))"
    by (simp only: str_contains_iff)
  also have "\<dots> \<longleftrightarrow> (\<exists>pre c post. is_digit c \<and> s = pre @ ''id'' @ c # post)"
    by (simp only: append_assoc append_Cons append_Nil) iprover
  finally show ?thesis .
qed

lemma id_digit_overlap:
  assumes "p2 @ ''id'' @ rest = ''id'' @ c # r" and "is_digit c" and "p2 \<noteq> []"
  shows "\<exists>q. p2 = ''id'' @ c # q"
proof (cases p2)
  case Nil
  with assms show ?thesis by simp
next
  case (Cons a q)
  note p2 = this
  show ?thesis
  proof (cases q)
    case Nil
    with p2 assms show ?thesis by simp
  next
    case (Cons b q')
    note q = this
    show ?thesis
    proof (cases q')
      case Nil
      with q p2 assms show ?thesis by (auto simp: is_digit_def)
    next
      case (Cons c' q'')
      with q p2 assms show ?thesis by simp
    qed
  qed
qed

lemma no_id_digit_before:
  assumes "\<not> has_id_digit pre" and "suffix p2 pre" and "p2 \<noteq> []"
  shows "match_id_digits (p2 @ ''id'' @ rest) = None"
proof (rule ccontr)
  assume "match_id_digits (p2 @ ''id'' @ rest) \<noteq> None"
  then obtain g where "match_id_digits (p2 @ ''id'' @ rest) = Some g" by auto
  then obtain c r where c: "is_digit c" and eq: "p2 @ ''id'' @ rest = ''id'' @ c # r"
    using match_id_digits_shape by blast
  from eq c \<open>p2 \<noteq> []\<close> obtain q where "p2 = ''id'' @ c # q"
    using id_digit_overlap by blast
  moreover from \<open>suffix p2 pre\<close> obtain a where "pre = a @ p2" by (auto simp: suffix_def)
  ultimately have "has_id_digit pre"
    using c unfolding has_id_digit_iff by blast
  with assms(1) show False by simp
qed

lemma re_search_id_digits:
  assumes "\<not> has_id_digit pre" "d \<noteq> []" "\<forall>c\<in>set d. is_digit c" "rest = [] \<or> \<not> is_digit (hd rest)"
  shows "re_search match_id_digits (pre @ ''id'' @ d @ rest) = Some d"
proof -
  have "re_search match_id_digits (pre @ (''id'' @ d @ rest))
          = re_search match_id_digits (''id'' @ d @ rest)"
    by (rule re_search_skip) (rule no_id_digit_before [OF assms(1)])
  also have "\<dots> = Some d"
    by (rule re_search_hit) (rule match_id_digits_here [OF assms(2-4)])
  finally show ?thesis .
qed


lemma re_search_id_digits_None_iff:
  "re_search match_id_digits url = None \<longleftrightarrow> \<not> has_id_digit url"
proof
  assume none: "re_search match_id_digits url = None"
  show "\<not> has_id_digit url"
  proof
    assume "has_id_digit url"
    then obtain pre c post where c: "is_digit c" and url: "url = pre @ ''id'' @ c # post"
      unfolding has_id_digit_iff by blast
    from url have "suffix (''id'' @ c # post) url" by (rule suffixI)
    moreover from none have "\<forall>t. suffix t url \<longrightarrow> match_id_digits t = None"
      by (simp only: re_search_None_iff)
    ultimately have "match_id_digits (''id'' @ c # post) = None" by blast
    moreover from c have "match_id_digits (''id'' @ c # post) \<noteq> None"
      by (simp add: match_id_digits_def)
    ultimately show False by simp
  qed
next
  assume no: "\<not> has_id_digit url"
  have "match_id_digits t = None" if "suffix t url" for t
  proof (rule ccontr)
    assume "match_id_digits t \<noteq> None"
    then obtain g where "match_id_digits t = Some g" by auto
    then obtain c r where "is_digit c" "t = ''id'' @ c # r"
      using match_id_digits_shape by blast
    moreover from that obtain a where "url = a @ t" by (auto simp: suffix_def)
    ultimately have "url = a @ ''id'' @ c # r \<and> is_digit c" by simp
    then have "has_id_digit url" unfolding has_id_digit_iff by blast
    with no show False by simp
  qed
  then show "re_search match_id_digits url = None" by (simp only: re_search_None_iff) blast
qed


lemma no_id_digit_snoc:
  assumes "\<not> has_id_digit pre" and "\<not> is_digit c" and "c \<noteq> CHR ''d''"
  shows "\<not> has_id_digit (pre @ [c])"
proof
  assume "has_id_digit (pre @ [c])"
  then obtain a x b where x: "is_digit x" and eq: "pre @ [c] = a @ ''id'' @ x # b"
    unfolding has_id_digit_iff by iprover
  show False
  proof (cases b rule: rev_cases)
    case Nil
    with eq have "pre @ [c] = (a @ ''id'') @ [x]" by simp
    then have "c = x" by (simp only: append1_eq_conv)
    with assms(2) x show False by simp
  next
    case (snoc b' y)
    with eq have "pre @ [c] = (a @ ''id'' @ x # b') @ [y]" by simp
    then have "pre = a @ ''id'' @ x # b'" by (simp only: append1_eq_conv)
    with x have "has_id_digit pre" unfolding has_id_digit_iff by iprover
    with assms(1) show False by simp
  qed
qed

section \<open>Platform detection: the classification\<close>

text \<open>
  C2 (as amended). \<open>detect_platform\<close> is a total function of the URL string. A URL in
  which \<open>play.google.com\<close> occurs is classified \<open>google_play\<close>; a URL in which
  \<open>apps.apple.com\<close> or \<open>itunes.apple.com\<close> occurs and \<open>play.google.com\<close> does not is
  classified \<open>app_store\<close>; a URL in which none of the three occurs is unsupported.
  Occurrence is that of a contiguous substring.
\<close>

theorem detect_platform_classification:
  "((\<exists>pre post. url = pre @ ''play.google.com'' @ post)
      \<longrightarrow> detect_platform url = Some google_play) \<and>
   (((\<exists>pre post. url = pre @ ''apps.apple.com'' @ post) \<or>
     (\<exists>pre post. url = pre @ ''itunes.apple.com'' @ post)) \<and>
    \<not> (\<exists>pre post. url = pre @ ''play.google.com'' @ post)
      \<longrightarrow> detect_platform url = Some app_store) \<and>
   (\<not> (\<exists>pre post. url = pre @ ''play.google.com'' @ post) \<and>
    \<not> (\<exists>pre post. url = pre @ ''apps.apple.com'' @ post) \<and>
    \<not> (\<exists>pre post. url = pre @ ''itunes.apple.com'' @ post)
      \<longrightarrow> detect_platform url = None)"
  unfolding str_contains_iff [symmetric] by (simp add: detect_platform_def)

theorem detect_platform_classification_witness:
  "(\<exists>pre post. ''https://play.google.com/store/apps/details?id=com.demo.app''
       = pre @ ''play.google.com'' @ post) \<and>
   detect_platform ''https://play.google.com/store/apps/details?id=com.demo.app''
     = Some google_play \<and>
   (\<exists>pre post. ''https://itunes.apple.com/us/app/id123456789''
       = pre @ ''itunes.apple.com'' @ post) \<and>
   \<not> (\<exists>pre post. ''https://itunes.apple.com/us/app/id123456789''
       = pre @ ''play.google.com'' @ post) \<and>
   detect_platform ''https://itunes.apple.com/us/app/id123456789'' = Some app_store \<and>
   \<not> (\<exists>pre post. ''https://example.com/app'' = pre @ ''play.google.com'' @ post) \<and>
   \<not> (\<exists>pre post. ''https://example.com/app'' = pre @ ''apps.apple.com'' @ post) \<and>
   \<not> (\<exists>pre post. ''https://example.com/app'' = pre @ ''itunes.apple.com'' @ post) \<and>
   detect_platform ''https://example.com/app'' = None"
  using detect_platform_classification
          [of "''https://play.google.com/store/apps/details?id=com.demo.app''"]
        detect_platform_classification [of "''https://itunes.apple.com/us/app/id123456789''"]
        detect_platform_classification [of "''https://example.com/app''"]
  unfolding str_contains_iff [symmetric] by simp

text \<open>
  The claim as written also classifies every URL in which \<open>apps.apple.com\<close> occurs as
  \<open>app_store\<close>. The first test of \<open>detect_platform\<close> wins: this App Store URL carries
  \<open>play.google.com\<close> in its query and is classified \<open>google_play\<close>.
\<close>

theorem detect_platform_both_hosts:
  "str_contains ''apps.apple.com'' ''https://apps.apple.com/us/app/x/id1?ref=play.google.com'' \<and>
   detect_platform ''https://apps.apple.com/us/app/x/id1?ref=play.google.com'' \<noteq> Some app_store"
  by (simp add: detect_platform_def)


section \<open>Identifier extraction: Google Play\<close>















section \<open>Identifier extraction: App Store\<close>

text \<open>
  C4 (as amended). For a URL classified \<open>app_store\<close>, \<open>extract_app_id\<close> returns the run
  of digits that directly follows the first \<open>id\<close> of the URL that has a digit after
  it, up to the first character that is not a digit; it returns absence exactly when no
  \<open>id\<close> of the URL is directly followed by a digit; and a URL \<open>pre/id123456789\<close> in
  which no \<open>id\<close> of \<open>pre\<close> is directly followed by a digit gives \<open>123456789\<close>.
\<close>

theorem extract_app_id_app_store:
  assumes "detect_platform url = Some app_store"
  shows
    "(\<forall>pre d rest.
        url = pre @ ''id'' @ d @ rest \<and> \<not> has_id_digit pre \<and>
        d \<noteq> [] \<and> list_all is_digit d \<and> (rest = [] \<or> \<not> is_digit (hd rest))
        \<longrightarrow> extract_app_id url (detect_platform url) = Some d) \<and>
     (extract_app_id url (detect_platform url) = None \<longleftrightarrow> \<not> has_id_digit url) \<and>
     (\<forall>pre. url = pre @ ''/id123456789'' \<and> \<not> has_id_digit pre
        \<longrightarrow> extract_app_id url (detect_platform url) = Some ''123456789'')"
proof (intro conjI allI impI)
  fix pre d rest
  assume h: "url = pre @ ''id'' @ d @ rest \<and> \<not> has_id_digit pre \<and>
        d \<noteq> [] \<and> list_all is_digit d \<and> (rest = [] \<or> \<not> is_digit (hd rest))"
  then have "re_search match_id_digits (pre @ ''id'' @ d @ rest) = Some d"
    by (intro re_search_id_digits) (simp_all add: list_all_iff)
  with h assms show "extract_app_id url (detect_platform url) = Some d"
    by (simp add: extract_app_id_def)
next
  from assms show "extract_app_id url (detect_platform url) = None \<longleftrightarrow> \<not> has_id_digit url"
    by (simp add: extract_app_id_def re_search_id_digits_None_iff)
next
  fix pre
  assume h: "url = pre @ ''/id123456789'' \<and> \<not> has_id_digit pre"
  have "\<not> has_id_digit (pre @ ''/'')"
    using h by (intro no_id_digit_snoc) (simp_all add: is_digit_def)
  moreover have "\<forall>c \<in> set ''123456789''. is_digit c" by (simp add: is_digit_def)
  ultimately have "re_search match_id_digits ((pre @ ''/'') @ ''id'' @ ''123456789'' @ [])
               = Some ''123456789''"
    by (intro re_search_id_digits) simp_all
  with h assms show "extract_app_id url (detect_platform url) = Some ''123456789''"
    by (simp add: extract_app_id_def)
qed

theorem extract_app_id_app_store_witness:
  "detect_platform ''https://apps.apple.com/us/app/example/id123456789?uo=4'' = Some app_store \<and>
   ''https://apps.apple.com/us/app/example/id123456789?uo=4''
     = ''https://apps.apple.com/us/app/example/'' @ ''id'' @ ''123456789'' @ ''?uo=4'' \<and>
   \<not> has_id_digit ''https://apps.apple.com/us/app/example/'' \<and>
   list_all is_digit ''123456789'' \<and> \<not> is_digit (hd ''?uo=4'') \<and>
   extract_app_id ''https://apps.apple.com/us/app/example/id123456789?uo=4'' (Some app_store)
     = Some ''123456789'' \<and>
   detect_platform ''https://apps.apple.com/us/app/example/id123456789'' = Some app_store \<and>
   \<not> has_id_digit ''https://apps.apple.com/us/app/example'' \<and>
   extract_app_id ''https://apps.apple.com/us/app/example/id123456789'' (Some app_store)
     = Some ''123456789'' \<and>
   detect_platform ''https://itunes.apple.com/lookup?id=123456789'' = Some app_store \<and>
   \<not> has_id_digit ''https://itunes.apple.com/lookup?id=123456789'' \<and>
   extract_app_id ''https://itunes.apple.com/lookup?id=123456789'' (Some app_store) = None"
proof -
  have d1: "detect_platform ''https://apps.apple.com/us/app/example/id123456789?uo=4''
              = Some app_store"
    by (simp add: detect_platform_def)
  have d2: "detect_platform ''https://apps.apple.com/us/app/example/id123456789'' = Some app_store"
    by (simp add: detect_platform_def)
  have d3: "detect_platform ''https://itunes.apple.com/lookup?id=123456789'' = Some app_store"
    by (simp add: detect_platform_def)
  have n1: "\<not> has_id_digit ''https://apps.apple.com/us/app/example/''"
    by (simp add: has_id_digit_def)
  have n2: "\<not> has_id_digit ''https://apps.apple.com/us/app/example''"
    by (simp add: has_id_digit_def)
  have n3: "\<not> has_id_digit ''https://itunes.apple.com/lookup?id=123456789''"
    by (simp add: has_id_digit_def)
  have g: "list_all is_digit ''123456789'' \<and> \<not> is_digit (hd ''?uo=4'')"
    by (simp add: is_digit_def)
  have "extract_app_id ''https://apps.apple.com/us/app/example/id123456789?uo=4'' (Some app_store)
     = Some ''123456789''"
    using extract_app_id_app_store [OF d1, THEN conjunct1, rule_format,
      of "''https://apps.apple.com/us/app/example/''" "''123456789''" "''?uo=4''"]
      d1 n1 g by simp
  moreover have "extract_app_id ''https://apps.apple.com/us/app/example/id123456789''
      (Some app_store) = Some ''123456789''"
    using extract_app_id_app_store [OF d2, THEN conjunct2, THEN conjunct2, rule_format,
      of "''https://apps.apple.com/us/app/example''"] d2 n2 by simp
  moreover have "extract_app_id ''https://itunes.apple.com/lookup?id=123456789'' (Some app_store)
      = None"
    using extract_app_id_app_store [OF d3, THEN conjunct2, THEN conjunct1] d3 n3 by simp
  ultimately show ?thesis using d1 d2 d3 n1 n2 n3 g by simp
qed

text \<open>
  The claim as written promises \<open>123456789\<close> for every URL that ends in
  \<open>/id123456789\<close>. An earlier \<open>id\<close> with a digit after it wins: here the one in
  \<open>covid19\<close>.
\<close>

theorem extract_app_id_app_store_earlier_digits:
  "detect_platform ''https://apps.apple.com/us/app/covid19-tracker/id123456789'' = Some app_store \<and>
   ''https://apps.apple.com/us/app/covid19-tracker/id123456789''
     = ''https://apps.apple.com/us/app/covid19-tracker'' @ ''/id123456789'' \<and>
   extract_app_id ''https://apps.apple.com/us/app/covid19-tracker/id123456789'' (Some app_store)
     = Some ''19''"
  by (simp add: detect_platform_def extract_app_id_def match_id_digits_def is_digit_def)



section \<open>The fetchers: fallback\<close>

lemma get_demo_data_shape:
  "length (fst (get_demo_data e p app_id k)) = 3 \<and>
   list_all (\<lambda>r. platform r = platform_name p \<and> app_name r = ''Demo App ('' @ app_id @ '')'')
     (fst (get_demo_data e p app_id k)) \<and>
   map helpful_count (fst (get_demo_data e p app_id k)) = [15, 8, 22]"
  by (simp add: get_demo_data_def demo_review_def)

lemma google_play_raises:
  "scrape_google_play_reviews e app_id max_reviews k = get_demo_data e google_play app_id k"
  if "google_play_try e app_id max_reviews = Inl err"
  using that by (cases err) (simp_all add: scrape_google_play_reviews_def)

lemma app_store_raises:
  "scrape_app_store_reviews e app_id max_reviews k = get_demo_data e app_store app_id k"
  if "app_store_try e app_id max_reviews = Inl err"
  using that by (cases err) (simp_all add: scrape_app_store_reviews_def)

lemma google_play_try_raises_iff:
  "isl (google_play_try e app_id max_reviews) \<longleftrightarrow>
     isl (google_play_scraper e) \<or>
     (\<exists>m. google_play_scraper e = Inr m \<and>
          (isl (gp_app m app_id) \<or> isl (gp_reviews_all m app_id)))"
  by (auto simp: google_play_try_def split: sum.splits)

lemma app_store_try_raises_iff:
  "isl (app_store_try e app_id max_reviews) \<longleftrightarrow>
     isl (app_store_scraper e) \<or>
     (\<exists>m. app_store_scraper e = Inr m \<and>
          isl (as_AppStore_review m ''us'' app_id (how_many max_reviews)))"
  by (auto simp: app_store_try_def split: sum.splits)

lemma demo_app_name_contains: "str_contains app_id (''Demo App ('' @ app_id @ '')'')"
  unfolding str_contains_iff by (intro exI) (rule refl)

text \<open>
  C1. Whenever the library of a platform cannot be imported, or a call into it
  raises, the fetcher of that platform returns exactly three records, each with the
  platform's display name (\<open>Google Play Store\<close> or \<open>Apple App Store\<close>) in \<open>platform\<close>
  and with \<open>app_name\<close> equal to \<open>Demo App (<app_id>)\<close>, which contains the
  identifier. The fetcher returns a list in every case: no error leaves it, and the
  list is not empty.
\<close>

theorem fetchers_fall_back_to_demo_data:
  "(isl (google_play_scraper e) \<or>
    (\<exists>m. google_play_scraper e = Inr m \<and>
         (isl (gp_app m app_id) \<or> isl (gp_reviews_all m app_id)))
    \<longrightarrow> length (fst (scrape_google_play_reviews e app_id max_reviews k)) = 3 \<and>
        list_all (\<lambda>r. platform r = ''Google Play Store'' \<and>
                      app_name r = ''Demo App ('' @ app_id @ '')'' \<and>
                      str_contains app_id (app_name r))
          (fst (scrape_google_play_reviews e app_id max_reviews k))) \<and>
   (isl (app_store_scraper e) \<or>
    (\<exists>m. app_store_scraper e = Inr m \<and>
         isl (as_AppStore_review m ''us'' app_id (how_many max_reviews)))
    \<longrightarrow> length (fst (scrape_app_store_reviews e app_id max_reviews k)) = 3 \<and>
        list_all (\<lambda>r. platform r = ''Apple App Store'' \<and>
                      app_name r = ''Demo App ('' @ app_id @ '')'' \<and>
                      str_contains app_id (app_name r))
          (fst (scrape_app_store_reviews e app_id max_reviews k)))"
proof (intro conjI impI)
  assume "isl (google_play_scraper e) \<or>
    (\<exists>m. google_play_scraper e = Inr m \<and>
         (isl (gp_app m app_id) \<or> isl (gp_reviews_all m app_id)))"
  then have "isl (google_play_try e app_id max_reviews)"
    by (simp only: google_play_try_raises_iff)
  then obtain err where "google_play_try e app_id max_reviews = Inl err"
    by (auto simp: isl_def)
  then have eq: "scrape_google_play_reviews e app_id max_reviews k
                  = get_demo_data e google_play app_id k"
    by (rule google_play_raises)
  show "length (fst (scrape_google_play_reviews e app_id max_reviews k)) = 3"
    by (simp only: eq get_demo_data_shape)
  show "list_all (\<lambda>r. platform r = ''Google Play Store'' \<and>
                      app_name r = ''Demo App ('' @ app_id @ '')'' \<and>
                      str_contains app_id (app_name r))
          (fst (scrape_google_play_reviews e app_id max_reviews k))"
    using demo_app_name_contains [of app_id]
    by (simp add: eq get_demo_data_def demo_review_def platform_name_def)
next
  assume "isl (app_store_scraper e) \<or>
    (\<exists>m. app_store_scraper e = Inr m \<and>
         isl (as_AppStore_review m ''us'' app_id (how_many max_reviews)))"
  then have "isl (app_store_try e app_id max_reviews)"
    by (simp only: app_store_try_raises_iff)
  then obtain err where "app_store_try e app_id max_reviews = Inl err"
    by (auto simp: isl_def)
  then have eq: "scrape_app_store_reviews e app_id max_reviews k
                  = get_demo_data e app_store app_id k"
    by (rule app_store_raises)
  show "length (fst (scrape_app_store_reviews e app_id max_reviews k)) = 3"
    by (simp only: eq get_demo_data_shape)
  show "list_all (\<lambda>r. platform r = ''Apple App Store'' \<and>
                      app_name r = ''Demo App ('' @ app_id @ '')'' \<and>
                      str_contains app_id (app_name r))
          (fst (scrape_app_store_reviews e app_id max_reviews k))"
    using demo_app_name_contains [of app_id]
    by (simp add: eq get_demo_data_def demo_review_def platform_name_def)
qed

theorem fetchers_fall_back_to_demo_data_witness:
  "isl (google_play_scraper example_offline) \<and>
   isl (app_store_scraper example_offline) \<and>
   length (fst (scrape_google_play_reviews example_offline ''com.demo.app'' (Some 500) 0)) = 3 \<and>
   list_all (\<lambda>r. platform r = ''Google Play Store'' \<and>
                 app_name r = ''Demo App (com.demo.app)'' \<and>
                 str_contains ''com.demo.app'' (app_name r))
     (fst (scrape_google_play_reviews example_offline ''com.demo.app'' (Some 500) 0)) \<and>
   length (fst (scrape_app_store_reviews example_offline ''123456789'' (Some 500) 0)) = 3 \<and>
   list_all (\<lambda>r. platform r = ''Apple App Store'' \<and>
                 app_name r = ''Demo App (123456789)'' \<and>
                 str_contains ''123456789'' (app_name r))
     (fst (scrape_app_store_reviews example_offline ''123456789'' (Some 500) 0)) \<and>
   (\<exists>m. google_play_scraper example_failing = Inr m \<and> isl (gp_app m ''com.demo.app'')) \<and>
   length (fst (scrape_google_play_reviews example_failing ''com.demo.app'' None 0)) = 3 \<and>
   (\<exists>m. app_store_scraper example_failing = Inr m \<and>
        isl (as_AppStore_review m ''us'' ''123456789'' (how_many None))) \<and>
   length (fst (scrape_app_store_reviews example_failing ''123456789'' None 0)) = 3"
proof -
  have off: "isl (google_play_scraper example_offline)" "isl (app_store_scraper example_offline)"
    by (simp_all add: example_offline_def)
  have gp: "\<exists>m. google_play_scraper example_failing = Inr m \<and> isl (gp_app m ''com.demo.app'')"
    by (simp add: example_failing_def)
  have as: "\<exists>m. app_store_scraper example_failing = Inr m \<and>
        isl (as_AppStore_review m ''us'' ''123456789'' (how_many None))"
    by (simp add: example_failing_def)
  from gp have gp': "\<exists>m. google_play_scraper example_failing = Inr m \<and>
     (isl (gp_app m ''com.demo.app'') \<or> isl (gp_reviews_all m ''com.demo.app''))"
    by blast
  show ?thesis
    using off gp as
      fetchers_fall_back_to_demo_data
        [of example_offline "''com.demo.app''" "Some 500" 0, THEN conjunct1]
      fetchers_fall_back_to_demo_data
        [of example_offline "''123456789''" "Some 500" 0, THEN conjunct2]
      fetchers_fall_back_to_demo_data
        [of example_failing "''com.demo.app''" None 0, THEN conjunct1] gp'
      fetchers_fall_back_to_demo_data
        [of example_failing "''123456789''" None 0, THEN conjunct2]
    by simp
qed

section \<open>The fetchers: the record limit\<close>

lemma google_play_succeeds:
  assumes "google_play_scraper e = Inr m" "gp_app m app_id = Inr info"
    "gp_reviews_all m app_id = Inr result"
  shows "scrape_google_play_reviews e app_id max_reviews k
           = (map (gp_record (title info)) (limit_reviews max_reviews result), k)"
  using assms by (simp add: scrape_google_play_reviews_def google_play_try_def)



lemma limit_reviews_falsy:
  "max_reviews = None \<or> max_reviews = Some 0 \<Longrightarrow> limit_reviews max_reviews result = result"
  by (auto simp: limit_reviews_def)





section \<open>The helpful count\<close>

lemma demo_helpful_nonneg:
  "list_all (\<lambda>r. 0 \<le> helpful_count r) (fst (get_demo_data e p app_id k))"
  by (simp add: get_demo_data_def demo_review_def)

lemma as_record_helpful: "list_all (\<lambda>r. helpful_count r = 0 \<and> platform r = ''Apple App Store'')
  (map (as_record name) rs)"
  by (simp add: list_all_iff as_record_def)

lemma gp_record_helpful:
  "map helpful_count (map (gp_record name) rs) = map gp_thumbsUpCount rs"
  by (simp add: gp_record_def)

lemma set_limit_reviews: "set (limit_reviews max_reviews result) \<subseteq> set result"
  by (auto simp: limit_reviews_def slice_to_def split: option.splits dest: in_set_takeD)

text \<open>
  C7 (as amended). Every record the App Store fetcher builds from the library's
  reviews has \<open>helpful_count\<close> 0 and the Apple App Store label. The three fallback
  records carry 15, 8 and 22, whichever platform was asked for. Every record of the App
  Store fetcher therefore has a non-negative \<open>helpful_count\<close>. The Google Play fetcher
  copies the upstream \<open>thumbsUpCount\<close> unchanged, so its records have a non-negative
  \<open>helpful_count\<close> whenever the upstream counts are non-negative.
\<close>

theorem helpful_count_by_path:
  "(app_store_try e app_id max_reviews = Inr rs
      \<longrightarrow> fst (scrape_app_store_reviews e app_id max_reviews k) = rs \<and>
          list_all (\<lambda>r. helpful_count r = 0 \<and> platform r = ''Apple App Store'') rs) \<and>
   (app_store_try e app_id max_reviews = Inl err
      \<longrightarrow> map helpful_count (fst (scrape_app_store_reviews e app_id max_reviews k))
            = [15, 8, 22]) \<and>
   (google_play_try e app_id max_reviews = Inl err
      \<longrightarrow> map helpful_count (fst (scrape_google_play_reviews e app_id max_reviews k))
            = [15, 8, 22]) \<and>
   list_all (\<lambda>r. 0 \<le> helpful_count r) (fst (scrape_app_store_reviews e app_id max_reviews k)) \<and>
   (google_play_scraper e = Inr gm \<and> gp_app gm app_id = Inr info \<and>
    gp_reviews_all gm app_id = Inr result
      \<longrightarrow> map helpful_count (fst (scrape_google_play_reviews e app_id max_reviews k))
            = map gp_thumbsUpCount (limit_reviews max_reviews result) \<and>
          (list_all (\<lambda>v. 0 \<le> gp_thumbsUpCount v) result
             \<longrightarrow> list_all (\<lambda>r. 0 \<le> helpful_count r)
                   (fst (scrape_google_play_reviews e app_id max_reviews k))))"
proof (intro conjI impI)
  assume ok: "app_store_try e app_id max_reviews = Inr rs"
  then show "fst (scrape_app_store_reviews e app_id max_reviews k) = rs"
    by (simp add: scrape_app_store_reviews_def)
  from ok obtain name xs where "rs = map (as_record name) xs"
    by (auto simp: app_store_try_def split: sum.splits)
  then show "list_all (\<lambda>r. helpful_count r = 0 \<and> platform r = ''Apple App Store'') rs"
    by (simp only: as_record_helpful)
next
  assume "app_store_try e app_id max_reviews = Inl err"
  then have "scrape_app_store_reviews e app_id max_reviews k = get_demo_data e app_store app_id k"
    by (rule app_store_raises)
  then show "map helpful_count (fst (scrape_app_store_reviews e app_id max_reviews k)) = [15, 8, 22]"
    by (simp only: get_demo_data_shape)
next
  assume "google_play_try e app_id max_reviews = Inl err"
  then have "scrape_google_play_reviews e app_id max_reviews k
               = get_demo_data e google_play app_id k"
    by (rule google_play_raises)
  then show "map helpful_count (fst (scrape_google_play_reviews e app_id max_reviews k)) = [15, 8, 22]"
    by (simp only: get_demo_data_shape)
next
  show "list_all (\<lambda>r. 0 \<le> helpful_count r)
          (fst (scrape_app_store_reviews e app_id max_reviews k))"
  proof (cases "app_store_try e app_id max_reviews")
    case (Inl err)
    then have "scrape_app_store_reviews e app_id max_reviews k
                 = get_demo_data e app_store app_id k"
      by (rule app_store_raises)
    then show ?thesis by (simp only: demo_helpful_nonneg)
  next
    case (Inr rs)
    then obtain name xs where "rs = map (as_record name) xs"
      by (auto simp: app_store_try_def split: sum.splits)
    with Inr show ?thesis
      by (simp add: scrape_app_store_reviews_def list_all_iff as_record_def)
  qed
next
  assume h: "google_play_scraper e = Inr gm \<and> gp_app gm app_id = Inr info \<and>
    gp_reviews_all gm app_id = Inr result"
  then have eq: "fst (scrape_google_play_reviews e app_id max_reviews k)
      = map (gp_record (title info)) (limit_reviews max_reviews result)"
    by (simp add: google_play_succeeds)
  show "map helpful_count (fst (scrape_google_play_reviews e app_id max_reviews k))
            = map gp_thumbsUpCount (limit_reviews max_reviews result)"
    by (simp only: eq gp_record_helpful)
  show "list_all (\<lambda>r. 0 \<le> helpful_count r)
          (fst (scrape_google_play_reviews e app_id max_reviews k))"
    if "list_all (\<lambda>v. 0 \<le> gp_thumbsUpCount v) result"
    using that set_limit_reviews [of max_reviews result]
    by (auto simp: eq list_all_iff gp_record_def)
qed

theorem helpful_count_by_path_witness:
  "app_store_try example_live ''123456789'' (Some 500)
     = Inr (fst (scrape_app_store_reviews example_live ''123456789'' (Some 500) 0)) \<and>
   map helpful_count (fst (scrape_app_store_reviews example_live ''123456789'' (Some 500) 0))
     = [0, 0] \<and>
   app_store_try example_offline ''123456789'' (Some 500)
     = Inl (ImportError ''No module named app_store_scraper'') \<and>
   map helpful_count (fst (scrape_app_store_reviews example_offline ''123456789'' (Some 500) 0))
     = [15, 8, 22] \<and>
   list_all (\<lambda>r. 0 \<le> helpful_count r)
     (fst (scrape_app_store_reviews example_offline ''123456789'' (Some 500) 0)) \<and>
   google_play_try example_offline ''com.demo.app'' (Some 500)
     = Inl (ImportError ''No module named google_play_scraper'') \<and>
   map helpful_count (fst (scrape_google_play_reviews example_offline ''com.demo.app'' (Some 500) 0))
     = [15, 8, 22] \<and>
   (\<exists>gm info. google_play_scraper example_live = Inr gm \<and>
      gp_app gm ''com.demo.app'' = Inr info \<and>
      gp_reviews_all gm ''com.demo.app'' = Inr example_gp_reviews) \<and>
   list_all (\<lambda>v. 0 \<le> gp_thumbsUpCount v) example_gp_reviews \<and>
   map helpful_count (fst (scrape_google_play_reviews example_live ''com.demo.app'' (Some 500) 0))
     = [3, 0, 7] \<and>
   list_all (\<lambda>r. 0 \<le> helpful_count r)
     (fst (scrape_google_play_reviews example_live ''com.demo.app'' (Some 500) 0))"
proof -
  define gm where "gm = \<lparr> gp_app = (\<lambda>app_id :: string. Inr \<lparr> title = ''Example App'' \<rparr> :: exn + app_info),
               gp_reviews_all = (\<lambda>app_id :: string. Inr example_gp_reviews :: exn + gp_review list) \<rparr>"
  have g: "google_play_scraper example_live = Inr gm \<and>
         gp_app gm ''com.demo.app'' = Inr \<lparr> title = ''Example App'' \<rparr> \<and>
         gp_reviews_all gm ''com.demo.app'' = Inr example_gp_reviews"
    by (simp add: example_live_def gm_def)
  have a: "app_store_try example_live ''123456789'' (Some 500)
     = Inr (fst (scrape_app_store_reviews example_live ''123456789'' (Some 500) 0))"
    by (simp add: scrape_app_store_reviews_def app_store_try_def example_live_def)
  have o1: "app_store_try example_offline ''123456789'' (Some 500)
     = Inl (ImportError ''No module named app_store_scraper'')"
    by (simp add: app_store_try_def example_offline_def)
  have o2: "google_play_try example_offline ''com.demo.app'' (Some 500)
     = Inl (ImportError ''No module named google_play_scraper'')"
    by (simp add: google_play_try_def example_offline_def)
  have nn: "list_all (\<lambda>v. 0 \<le> gp_thumbsUpCount v) example_gp_reviews"
    by (simp add: example_gp_reviews_def)
  have r1: "map helpful_count (fst (scrape_app_store_reviews example_live ''123456789'' (Some 500) 0))
     = [0, 0]"
    using a helpful_count_by_path [where e = example_live and app_id = "''123456789''"
      and max_reviews = "Some 500" and k = 0
      and rs = "fst (scrape_app_store_reviews example_live ''123456789'' (Some 500) 0)",
      THEN conjunct1]
    by (simp add: scrape_app_store_reviews_def app_store_try_def example_live_def
        example_as_reviews_def as_record_def)
  have r2: "map helpful_count
     (fst (scrape_google_play_reviews example_offline ''com.demo.app'' (Some 500) 0)) = [15, 8, 22]"
    using o2 helpful_count_by_path [where e = example_offline and app_id = "''com.demo.app''"
      and max_reviews = "Some 500" and k = 0
      and err = "ImportError ''No module named google_play_scraper''",
      THEN conjunct2, THEN conjunct2, THEN conjunct1]
    by simp
  have r4: "map helpful_count
     (fst (scrape_app_store_reviews example_offline ''123456789'' (Some 500) 0)) = [15, 8, 22]"
    using o1 helpful_count_by_path [where e = example_offline and app_id = "''123456789''"
      and max_reviews = "Some 500" and k = 0
      and err = "ImportError ''No module named app_store_scraper''",
      THEN conjunct2, THEN conjunct1]
    by simp
  have r5: "list_all (\<lambda>r. 0 \<le> helpful_count r)
     (fst (scrape_app_store_reviews example_offline ''123456789'' (Some 500) 0))"
    using helpful_count_by_path [where e = example_offline and app_id = "''123456789''"
      and max_reviews = "Some 500" and k = 0,
      THEN conjunct2, THEN conjunct2, THEN conjunct2, THEN conjunct1]
    by simp
  have r3: "map helpful_count (fst (scrape_google_play_reviews example_live ''com.demo.app'' (Some 500) 0))
     = [3, 0, 7] \<and>
   list_all (\<lambda>r. 0 \<le> helpful_count r)
     (fst (scrape_google_play_reviews example_live ''com.demo.app'' (Some 500) 0))"
    using g nn helpful_count_by_path [where e = example_live and app_id = "''com.demo.app''"
      and max_reviews = "Some 500" and k = 0 and gm = gm and info = "\<lparr> title = ''Example App'' \<rparr>"
      and result = example_gp_reviews,
      THEN conjunct2, THEN conjunct2, THEN conjunct2, THEN conjunct2]
    by (simp add: limit_reviews_def example_gp_reviews_def)
  from g have g': "\<exists>gm info. google_play_scraper example_live = Inr gm \<and>
      gp_app gm ''com.demo.app'' = Inr info \<and>
      gp_reviews_all gm ''com.demo.app'' = Inr example_gp_reviews"
    by blast
  from a o1 o2 nn r1 r2 r3 r4 r5 g' show ?thesis by blast
qed

text \<open>
  The claim as written gives \<open>helpful_count\<close> 0 to every record labelled Apple App
  Store. The fallback records of the App Store fetcher carry that label and the
  counts 15, 8 and 22.
\<close>

theorem app_store_demo_helpful_count:
  "map (\<lambda>r. (platform r, helpful_count r))
     (fst (scrape_app_store_reviews example_offline ''123456789'' (Some 500) 0))
   = [(''Apple App Store'', 15), (''Apple App Store'', 8), (''Apple App Store'', 22)]"
  by (simp add: scrape_app_store_reviews_def app_store_try_def example_offline_def
      get_demo_data_def demo_review_def platform_name_def)


section \<open>The scrape endpoint: the errors it answers\<close>

lemma scrape_well_formed:
  assumes "well_formed e (request_url req)"
  shows "scrape e req =
     (case scrape_reviews e (request_url req) (request_max_reviews req) 0 of
        Inl err \<Rightarrow> error_response 500 (exn_str err)
      | Inr (reviews, k) \<Rightarrow>
          (case reviews of
             [] \<Rightarrow> error_response 404 ''No reviews found or unable to scrape''
           | r # _ \<Rightarrow>
               (case to_csv e (''/tmp/'' @ make_filename (app_name r) (now e k)) reviews of
                  Some err \<Rightarrow>
                    (\<lparr> status = 500, body = Error (exn_str err) \<rparr>,
                     Some (''/tmp/'' @ make_filename (app_name r) (now e k), reviews))
                | None \<Rightarrow>
                    (\<lparr> status = 200,
                       body = Success
                         \<lparr> message = ''Successfully scraped '' @ show_nat (length reviews) @
                             '' reviews'',
                           filename = make_filename (app_name r) (now e k),
                           review_count = length reviews,
                           scraped_app_name = app_name r \<rparr> \<rparr>,
                     Some (''/tmp/'' @ make_filename (app_name r) (now e k), reviews)))))"
proof -
  from assms obtain scheme netloc where
    u: "str_strip (case url_field req of None \<Rightarrow> [] | Some u \<Rightarrow> u) \<noteq> []"
    and p: "urlparse e (str_strip (case url_field req of None \<Rightarrow> [] | Some u \<Rightarrow> u))
              = Inr (scheme, netloc)"
    and n: "scheme \<noteq> []" "netloc \<noteq> []"
    unfolding well_formed_def request_url_def
    by (auto split: sum.splits prod.splits)
  show ?thesis
    unfolding scrape_def request_url_def request_max_reviews_def Let_def
    by (simp only: u p n if_False sum.case prod.case simp_thms)
qed

lemma scrape_written:
  assumes "well_formed e (request_url req)"
    and "scrape_reviews e (request_url req) (request_max_reviews req) 0 = Inr (r # rs, k)"
  shows "snd (scrape e req) = Some (''/tmp/'' @ make_filename (app_name r) (now e k), r # rs)"
    and "to_csv e (''/tmp/'' @ make_filename (app_name r) (now e k)) (r # rs) = None \<Longrightarrow>
         fst (scrape e req) =
           \<lparr> status = 200,
             body = Success
               \<lparr> message = ''Successfully scraped '' @ show_nat (length (r # rs)) @ '' reviews'',
                 filename = make_filename (app_name r) (now e k),
                 review_count = length (r # rs),
                 scraped_app_name = app_name r \<rparr> \<rparr>"
    and "to_csv e (''/tmp/'' @ make_filename (app_name r) (now e k)) (r # rs) = Some err \<Longrightarrow>
         fst (scrape e req) = \<lparr> status = 500, body = Error (exn_str err) \<rparr>"
  by (simp_all add: scrape_well_formed [OF assms(1)] assms(2) split: option.splits)

lemma match_id_eq_nonempty: "match_id_eq t = Some g \<Longrightarrow> g \<noteq> []"
  by (auto simp: match_id_eq_def Let_def split: if_splits)

lemma match_id_digits_nonempty: "match_id_digits t = Some g \<Longrightarrow> g \<noteq> []"
  by (auto simp: match_id_digits_def Let_def split: if_splits)

lemma extract_app_id_nonempty:
  assumes "extract_app_id url p = Some g"
  shows "g \<noteq> []"
proof (cases p)
  case None
  with assms show ?thesis by (simp add: extract_app_id_def)
next
  case (Some q)
  show ?thesis
  proof (cases q)
    case google_play
    with Some assms have "re_search match_id_eq url = Some g" by (simp add: extract_app_id_def)
    from re_search_Some_suffix [OF this] obtain t where "match_id_eq t = Some g"
      by (elim exE conjE)
    then show ?thesis by (rule match_id_eq_nonempty)
  next
    case app_store
    with Some assms have "re_search match_id_digits url = Some g" by (simp add: extract_app_id_def)
    from re_search_Some_suffix [OF this] obtain t where "match_id_digits t = Some g"
      by (elim exE conjE)
    then show ?thesis by (rule match_id_digits_nonempty)
  qed
qed

lemma scrape_reviews_unsupported:
  "detect_platform url = None \<Longrightarrow> scrape_reviews e url max_reviews k =
     Inl (ValueError
       ''Unsupported URL. Please provide a Google Play Store or Apple App Store URL.'')"
  by (simp add: scrape_reviews_def)

lemma scrape_reviews_no_id:
  "detect_platform url = Some p \<Longrightarrow> extract_app_id url (Some p) = None \<Longrightarrow>
   scrape_reviews e url max_reviews k = Inl (ValueError ''Could not extract app ID from URL.'')"
  by (simp add: scrape_reviews_def)

lemma scrape_reviews_google_play:
  assumes "detect_platform url = Some google_play"
    and "extract_app_id url (Some google_play) = Some app_id"
  shows "scrape_reviews e url max_reviews k
           = Inr (scrape_google_play_reviews e app_id max_reviews k)"
  using assms extract_app_id_nonempty [OF assms(2)] by (simp add: scrape_reviews_def)

text \<open>
  C5 (as amended). For a request whose URL passes the handler's checks: when the URL
  matches no known storefront, and when it matches one but no identifier can be
  extracted, the response has status 500 and carries the message of the
  \<open>ValueError\<close> that \<open>scrape_reviews\<close> raised; no file is written.
\<close>

lemma scrape_value_errors:
  assumes "well_formed e (request_url req)"
  shows
    "(detect_platform (request_url req) = None
        \<longrightarrow> scrape e req = error_response 500
              ''Unsupported URL. Please provide a Google Play Store or Apple App Store URL.'') \<and>
     (detect_platform (request_url req) = Some p \<and>
      extract_app_id (request_url req) (Some p) = None
        \<longrightarrow> scrape e req = error_response 500 ''Could not extract app ID from URL.'')"
  by (simp add: scrape_well_formed [OF assms] scrape_reviews_unsupported scrape_reviews_no_id)

text \<open>
  C5. The claim gives a status in the 400 range, with a readable message, to a request
  whose well-formed URL matches no known storefront or yields no identifier. The program
  raises a \<open>ValueError\<close> with such a message for both, and the only handler around
  the call is the handler's last \<open>except Exception\<close>, while its own checks of the
  URL answer 400. At these two requests the status is 500.
\<close>

theorem scrape_value_errors_answer_500:
  "well_formed example_offline
     (request_url \<lparr> url_field = Some ''https://www.example.org/store/app'',
                    max_reviews_field = None \<rparr>) \<and>
   detect_platform
     (request_url \<lparr> url_field = Some ''https://www.example.org/store/app'',
                    max_reviews_field = None \<rparr>) = None \<and>
   fst (scrape example_offline
     \<lparr> url_field = Some ''https://www.example.org/store/app'', max_reviews_field = None \<rparr>)
     = \<lparr> status = 500, body = Error
         ''Unsupported URL. Please provide a Google Play Store or Apple App Store URL.'' \<rparr> \<and>
   well_formed example_offline
     (request_url \<lparr> url_field = Some ''https://play.google.com/store/apps/details'',
                    max_reviews_field = None \<rparr>) \<and>
   detect_platform
     (request_url \<lparr> url_field = Some ''https://play.google.com/store/apps/details'',
                    max_reviews_field = None \<rparr>) = Some google_play \<and>
   extract_app_id
     (request_url \<lparr> url_field = Some ''https://play.google.com/store/apps/details'',
                    max_reviews_field = None \<rparr>) (Some google_play) = None \<and>
   fst (scrape example_offline
     \<lparr> url_field = Some ''https://play.google.com/store/apps/details'',
       max_reviews_field = None \<rparr>)
     = \<lparr> status = 500, body = Error ''Could not extract app ID from URL.'' \<rparr>"
proof -
  let ?r1 = "\<lparr> url_field = Some ''https://www.example.org/store/app'',
               max_reviews_field = None :: int option option \<rparr>"
  let ?r2 = "\<lparr> url_field = Some ''https://play.google.com/store/apps/details'',
               max_reviews_field = None :: int option option \<rparr>"
  have u1: "request_url ?r1 = ''https://www.example.org/store/app''"
    by (simp add: request_url_def str_strip_def is_space_def)
  have u2: "request_url ?r2 = ''https://play.google.com/store/apps/details''"
    by (simp add: request_url_def str_strip_def is_space_def)
  have w1: "well_formed example_offline (request_url ?r1)"
    by (simp add: u1 well_formed_def example_offline_def example_urlparse_def)
  have w2: "well_formed example_offline (request_url ?r2)"
    by (simp add: u2 well_formed_def example_offline_def example_urlparse_def)
  have d1: "detect_platform (request_url ?r1) = None"
    by (simp add: u1 detect_platform_def)
  have d2: "detect_platform (request_url ?r2) = Some google_play"
    by (simp add: u2 detect_platform_def)
  have x2: "extract_app_id (request_url ?r2) (Some google_play) = None"
    by (simp add: u2 extract_app_id_def match_id_eq_def)
  have s1: "fst (scrape example_offline ?r1)
     = \<lparr> status = 500, body = Error
         ''Unsupported URL. Please provide a Google Play Store or Apple App Store URL.'' \<rparr>"
    using scrape_value_errors [OF w1, THEN conjunct1] d1 by (simp add: error_response_def)
  have s2: "fst (scrape example_offline ?r2)
     = \<lparr> status = 500, body = Error ''Could not extract app ID from URL.'' \<rparr>"
    using scrape_value_errors [OF w2, of google_play, THEN conjunct2] d2 x2
    by (simp add: error_response_def)
  from w1 d1 s1 w2 d2 x2 s2 show ?thesis by blast
qed

section \<open>The scrape endpoint: the file name\<close>

lemma sanitize_map:
  "sanitize name
     = take 50 (map (\<lambda>c. if c = CHR '' '' \<or> c = CHR ''/'' then CHR ''_'' else c) name)"
  unfolding sanitize_def str_replace_def map_map comp_def
  by (rule arg_cong [where f = "take 50"], rule map_cong, rule refl) auto

lemma sanitize_length: "length (sanitize name) \<le> 50"
  by (simp add: sanitize_def)

lemma sanitize_clean:
  "CHR '' '' \<notin> set (sanitize name) \<and> CHR ''/'' \<notin> set (sanitize name)"
proof -
  have "set (sanitize name)
          \<subseteq> set (map (\<lambda>c. if c = CHR '' '' \<or> c = CHR ''/'' then CHR ''_'' else c) name)"
    unfolding sanitize_map by (rule set_take_subset)
  then show ?thesis by (auto split: if_splits)
qed

lemma digit_cases:
  "k < (10 :: nat) \<Longrightarrow>
     k = 0 \<or> k = 1 \<or> k = 2 \<or> k = 3 \<or> k = 4 \<or> k = 5 \<or> k = 6 \<or> k = 7 \<or> k = 8 \<or> k = 9"
  by arith

lemma digit_value_nth: "k < 10 \<Longrightarrow> digit_value (''0123456789'' ! k) = k"
  by (drule digit_cases, elim disjE) (simp_all add: digit_value_def)

lemma is_digit_nth: "k < 10 \<Longrightarrow> is_digit (''0123456789'' ! k)"
  by (drule digit_cases, elim disjE) (simp_all add: is_digit_def)

lemma read_nat_snoc: "read_nat (xs @ [c]) = 10 * read_nat xs + digit_value c"
  by (simp add: read_nat_def)

lemma read_nat_show_nat: "read_nat (show_nat n) = n"
proof (induction n rule: show_nat.induct)
  case (1 n)
  show ?case
  proof (cases "n < 10")
    case True
    then have "show_nat n = [''0123456789'' ! n]" by (simp add: show_nat.simps)
    with True show ?thesis by (simp add: read_nat_def digit_value_nth)
  next
    case False
    then have s: "show_nat n = show_nat (n div 10) @ [''0123456789'' ! (n mod 10)]"
      by (subst show_nat.simps) simp
    from False "1.IH" have "read_nat (show_nat (n div 10)) = n div 10" by simp
    then show ?thesis by (simp add: s read_nat_snoc digit_value_nth)
  qed
qed

lemma digits_show_nat: "list_all is_digit (show_nat n)"
proof (induction n rule: show_nat.induct)
  case (1 n)
  show ?case
  proof (cases "n < 10")
    case True
    then show ?thesis by (simp add: show_nat.simps is_digit_nth)
  next
    case False
    then have s: "show_nat n = show_nat (n div 10) @ [''0123456789'' ! (n mod 10)]"
      by (subst show_nat.simps) simp
    from False "1.IH" show ?thesis by (simp add: s is_digit_nth)
  qed
qed

lemma length_show_nat_1: "n < 10 \<Longrightarrow> length (show_nat n) = 1"
  by (simp add: show_nat.simps)

lemma length_show_nat_2: "10 \<le> n \<Longrightarrow> n < 100 \<Longrightarrow> length (show_nat n) = 2"
  by (subst show_nat.simps) (simp add: length_show_nat_1)

lemma length_show_nat_3: "100 \<le> n \<Longrightarrow> n < 1000 \<Longrightarrow> length (show_nat n) = 3"
  by (subst show_nat.simps) (simp add: length_show_nat_2)

lemma length_show_nat_4: "1000 \<le> n \<Longrightarrow> n < 10000 \<Longrightarrow> length (show_nat n) = 4"
  by (subst show_nat.simps) (simp add: length_show_nat_3)

lemma pad2_two:
  assumes "n < 100"
  shows "length (pad2 n) = 2" and "read_nat (pad2 n) = n" and "list_all is_digit (pad2 n)"
proof -
  show "length (pad2 n) = 2"
    using assms by (cases "n < 10") (simp_all add: pad2_def length_show_nat_1 length_show_nat_2)
  have z: "read_nat (CHR ''0'' # xs) = read_nat xs" for xs
    by (simp add: read_nat_def digit_value_def)
  show "read_nat (pad2 n) = n"
    by (simp add: pad2_def z read_nat_show_nat)
  show "list_all is_digit (pad2 n)"
    by (simp add: pad2_def digits_show_nat is_digit_def)
qed

lemma strftime_compact_reads:
  assumes "valid_datetime d"
  shows "length (strftime_compact d) = 15 \<and>
         strftime_compact d ! 8 = CHR ''_'' \<and>
         list_all is_digit (take 8 (strftime_compact d)) \<and>
         list_all is_digit (drop 9 (strftime_compact d)) \<and>
         read_nat (take 4 (strftime_compact d)) = year d \<and>
         read_nat (take 2 (drop 4 (strftime_compact d))) = month d \<and>
         read_nat (take 2 (drop 6 (strftime_compact d))) = day d \<and>
         read_nat (take 2 (drop 9 (strftime_compact d))) = hour d \<and>
         read_nat (take 2 (drop 11 (strftime_compact d))) = minute d \<and>
         read_nat (drop 13 (strftime_compact d)) = second d"
proof -
  define Y where "Y = show_nat (year d)"
  define M where "M = pad2 (month d)"
  define D where "D = pad2 (day d)"
  define h where "h = pad2 (hour d)"
  define m where "m = pad2 (minute d)"
  define s where "s = pad2 (second d)"
  from assms have b: "1000 \<le> year d" "year d < 10000" "month d < 100" "day d < 100"
    "hour d < 100" "minute d < 100" "second d < 100"
    by (simp_all add: valid_datetime_def)
  have ts: "strftime_compact d = Y @ M @ D @ CHR ''_'' # h @ m @ s"
    by (simp add: strftime_compact_def Y_def M_def D_def h_def m_def s_def)
  have len: "length Y = 4" "length M = 2" "length D = 2" "length h = 2" "length m = 2"
    "length s = 2"
    using b by (simp_all add: Y_def M_def D_def h_def m_def s_def length_show_nat_4 pad2_two)
  have rd: "read_nat Y = year d" "read_nat M = month d" "read_nat D = day d"
    "read_nat h = hour d" "read_nat m = minute d" "read_nat s = second d"
    using b by (simp_all add: Y_def M_def D_def h_def m_def s_def read_nat_show_nat pad2_two)
  have dg: "list_all is_digit Y" "list_all is_digit M" "list_all is_digit D"
    "list_all is_digit h" "list_all is_digit m" "list_all is_digit s"
    using b by (simp_all add: Y_def M_def D_def h_def m_def s_def digits_show_nat pad2_two)
  show ?thesis
    unfolding ts using len rd dg by (simp add: nth_append)
qed

lemma example_stamp: "strftime_compact (example_clock 3) = ''20261103_170403''"
  by (simp add: strftime_compact_def example_clock_def pad2_def show_nat.simps)

lemma example_demo_scrape:
  assumes "detect_platform url = Some google_play"
    and "extract_app_id url (Some google_play) = Some app_id"
  shows "scrape_reviews example_offline url max_reviews 0
     = Inr (demo_review app_id ''Demo User 1'' 5
              ''Great app! Works perfectly and has a beautiful interface.''
              (example_clock 0) 15 ''Google Play Store''
            # [ demo_review app_id ''Demo User 2'' 4
                  ''Very useful app. The yellow theme looks amazing!''
                  (example_clock 1) 8 ''Google Play Store'',
                demo_review app_id ''Demo User 3'' 5
                  ''Excellent functionality and easy to use. Highly recommended!''
                  (example_clock 2) 22 ''Google Play Store'' ], 3)"
proof -
  have t: "google_play_try example_offline app_id max_reviews
             = Inl (ImportError ''No module named google_play_scraper'')"
    by (simp add: google_play_try_def example_offline_def)
  have c: "now example_offline = example_clock"
    by (simp add: example_offline_def)
  show ?thesis
    by (simp add: scrape_reviews_google_play [OF assms] google_play_raises [OF t]
        get_demo_data_def platform_name_def c numeral_2_eq_2)
qed

text \<open>
  C9. When the URL passes the handler's checks and the scrape produces a non-empty
  review list, the file the handler asks the CSV writer for is \<open>/tmp/\<close> followed by
  \<open>reviews_\<close>, the sanitised \<open>app_name\<close> of the first record, \<open>_\<close>, the clock reading
  taken after the scrape in the format \<open>%Y%m%d_%H%M%S\<close>, and \<open>.csv\<close>; when the write
  returns, the response is a success with that \<open>filename\<close>, and when it raises, the
  response is 500 with the message of the exception. The sanitised name is the name with
  every space and every \<open>/\<close> replaced by \<open>_\<close>, cut to its first 50 characters: it has
  at most 50 characters and contains neither a space nor a \<open>/\<close>. The timestamp of a
  clock reading has 15 characters, eight digits, \<open>_\<close> and six digits, which read as the
  year, month, day, hour, minute and second of the reading.
\<close>

theorem scrape_filename:
  assumes "well_formed e (request_url req)"
    and "scrape_reviews e (request_url req) (request_max_reviews req) 0 = Inr (r # rs, k)"
  shows
    "snd (scrape e req) = Some (''/tmp/'' @ make_filename (app_name r) (now e k), r # rs) \<and>
     make_filename (app_name r) (now e k)
       = ''reviews_'' @ sanitize (app_name r) @ ''_'' @ strftime_compact (now e k) @ ''.csv'' \<and>
     (to_csv e (''/tmp/'' @ make_filename (app_name r) (now e k)) (r # rs) = None
        \<longrightarrow> status (fst (scrape e req)) = 200 \<and>
            (\<exists>res. body (fst (scrape e req)) = Success res \<and>
                   filename res = make_filename (app_name r) (now e k))) \<and>
     (\<forall>err. to_csv e (''/tmp/'' @ make_filename (app_name r) (now e k)) (r # rs) = Some err
        \<longrightarrow> fst (scrape e req) = \<lparr> status = 500, body = Error (exn_str err) \<rparr>) \<and>
     sanitize (app_name r)
       = take 50 (map (\<lambda>c. if c = CHR '' '' \<or> c = CHR ''/'' then CHR ''_'' else c)
                    (app_name r)) \<and>
     length (sanitize (app_name r)) \<le> 50 \<and>
     CHR '' '' \<notin> set (sanitize (app_name r)) \<and> CHR ''/'' \<notin> set (sanitize (app_name r)) \<and>
     (valid_datetime (now e k)
        \<longrightarrow> length (strftime_compact (now e k)) = 15 \<and>
            strftime_compact (now e k) ! 8 = CHR ''_'' \<and>
            list_all is_digit (take 8 (strftime_compact (now e k))) \<and>
            list_all is_digit (drop 9 (strftime_compact (now e k))) \<and>
            read_nat (take 4 (strftime_compact (now e k))) = year (now e k) \<and>
            read_nat (take 2 (drop 4 (strftime_compact (now e k)))) = month (now e k) \<and>
            read_nat (take 2 (drop 6 (strftime_compact (now e k)))) = day (now e k) \<and>
            read_nat (take 2 (drop 9 (strftime_compact (now e k)))) = hour (now e k) \<and>
            read_nat (take 2 (drop 11 (strftime_compact (now e k)))) = minute (now e k) \<and>
            read_nat (drop 13 (strftime_compact (now e k))) = second (now e k))"
proof (intro conjI impI allI)
  show "snd (scrape e req) = Some (''/tmp/'' @ make_filename (app_name r) (now e k), r # rs)"
    by (rule scrape_written(1) [OF assms])
  show "make_filename (app_name r) (now e k)
       = ''reviews_'' @ sanitize (app_name r) @ ''_'' @ strftime_compact (now e k) @ ''.csv''"
    by (simp add: make_filename_def)
  show "sanitize (app_name r)
       = take 50 (map (\<lambda>c. if c = CHR '' '' \<or> c = CHR ''/'' then CHR ''_'' else c)
                    (app_name r))"
    by (rule sanitize_map)
  show "length (sanitize (app_name r)) \<le> 50" by (rule sanitize_length)
  show "CHR '' '' \<notin> set (sanitize (app_name r))" "CHR ''/'' \<notin> set (sanitize (app_name r))"
    using sanitize_clean [of "app_name r"] by simp_all
next
  assume "to_csv e (''/tmp/'' @ make_filename (app_name r) (now e k)) (r # rs) = None"
  note ok = scrape_written(2) [OF assms this]
  show "status (fst (scrape e req)) = 200" by (simp add: ok)
  show "\<exists>res. body (fst (scrape e req)) = Success res \<and>
                   filename res = make_filename (app_name r) (now e k)"
    by (simp add: ok)
next
  fix err
  assume "to_csv e (''/tmp/'' @ make_filename (app_name r) (now e k)) (r # rs) = Some err"
  then show "fst (scrape e req) = \<lparr> status = 500, body = Error (exn_str err) \<rparr>"
    by (rule scrape_written(3) [OF assms])
next
  assume v: "valid_datetime (now e k)"
  note t = strftime_compact_reads [OF v]
  show "length (strftime_compact (now e k)) = 15" using t by blast
  show "strftime_compact (now e k) ! 8 = CHR ''_''" using t by blast
  show "list_all is_digit (take 8 (strftime_compact (now e k)))" using t by blast
  show "list_all is_digit (drop 9 (strftime_compact (now e k)))" using t by blast
  show "read_nat (take 4 (strftime_compact (now e k))) = year (now e k)" using t by blast
  show "read_nat (take 2 (drop 4 (strftime_compact (now e k)))) = month (now e k)"
    using t by blast
  show "read_nat (take 2 (drop 6 (strftime_compact (now e k)))) = day (now e k)"
    using t by blast
  show "read_nat (take 2 (drop 9 (strftime_compact (now e k)))) = hour (now e k)"
    using t by blast
  show "read_nat (take 2 (drop 11 (strftime_compact (now e k)))) = minute (now e k)"
    using t by blast
  show "read_nat (drop 13 (strftime_compact (now e k))) = second (now e k)" using t by blast
qed

theorem scrape_filename_witness:
  "well_formed example_offline
     (request_url \<lparr> url_field = Some ''https://play.google.com/store/apps/details?id=com.demo.app'',
                    max_reviews_field = None \<rparr>) \<and>
   (\<exists>r rs.
      scrape_reviews example_offline
        (request_url \<lparr> url_field = Some ''https://play.google.com/store/apps/details?id=com.demo.app'',
                       max_reviews_field = None \<rparr>)
        (request_max_reviews
           \<lparr> url_field = Some ''https://play.google.com/store/apps/details?id=com.demo.app'',
             max_reviews_field = None \<rparr>) 0 = Inr (r # rs, 3) \<and>
      app_name r = ''Demo App (com.demo.app)'' \<and>
      to_csv example_offline ''/tmp/reviews_Demo_App_(com.demo.app)_20261103_170403.csv'' (r # rs)
        = None \<and>
      snd (scrape example_offline
             \<lparr> url_field = Some ''https://play.google.com/store/apps/details?id=com.demo.app'',
               max_reviews_field = None \<rparr>)
        = Some (''/tmp/reviews_Demo_App_(com.demo.app)_20261103_170403.csv'', r # rs)) \<and>
   status (fst (scrape example_offline
              \<lparr> url_field = Some ''https://play.google.com/store/apps/details?id=com.demo.app'',
                max_reviews_field = None \<rparr>)) = 200 \<and>
   (\<exists>res. body (fst (scrape example_offline
              \<lparr> url_field = Some ''https://play.google.com/store/apps/details?id=com.demo.app'',
                max_reviews_field = None \<rparr>)) = Success res \<and>
          filename res = ''reviews_Demo_App_(com.demo.app)_20261103_170403.csv'') \<and>
   valid_datetime (now example_offline 3) \<and>
   strftime_compact (now example_offline 3) = ''20261103_170403'' \<and>
   read_nat ''2026'' = year (now example_offline 3) \<and>
   read_nat ''03'' = second (now example_offline 3) \<and>
   well_formed example_offline
     (request_url \<lparr> url_field = Some (''https://play.google.com/store/apps/details?id=a'' @
                                       [CHR 0x00] @ ''b''),
                    max_reviews_field = None \<rparr>) \<and>
   fst (scrape example_offline
          \<lparr> url_field = Some (''https://play.google.com/store/apps/details?id=a'' @
                               [CHR 0x00] @ ''b''),
            max_reviews_field = None \<rparr>)
     = \<lparr> status = 500, body = Error ''embedded null byte'' \<rparr>"
proof -
  let ?req = "\<lparr> url_field = Some ''https://play.google.com/store/apps/details?id=com.demo.app'',
                max_reviews_field = None :: int option option \<rparr>"
  let ?bad = "\<lparr> url_field = Some (''https://play.google.com/store/apps/details?id=a'' @
                               [CHR 0x00] @ ''b''),
                max_reviews_field = None :: int option option \<rparr>"
  let ?r = "demo_review ''com.demo.app'' ''Demo User 1'' 5
              ''Great app! Works perfectly and has a beautiful interface.''
              (example_clock 0) 15 ''Google Play Store''"
  let ?rs = "[ demo_review ''com.demo.app'' ''Demo User 2'' 4
                  ''Very useful app. The yellow theme looks amazing!''
                  (example_clock 1) 8 ''Google Play Store'',
                demo_review ''com.demo.app'' ''Demo User 3'' 5
                  ''Excellent functionality and easy to use. Highly recommended!''
                  (example_clock 2) 22 ''Google Play Store'' ]"
  let ?b = "demo_review (''a'' @ [CHR 0x00] @ ''b'') ''Demo User 1'' 5
              ''Great app! Works perfectly and has a beautiful interface.''
              (example_clock 0) 15 ''Google Play Store''"
  let ?bs = "[ demo_review (''a'' @ [CHR 0x00] @ ''b'') ''Demo User 2'' 4
                  ''Very useful app. The yellow theme looks amazing!''
                  (example_clock 1) 8 ''Google Play Store'',
                demo_review (''a'' @ [CHR 0x00] @ ''b'') ''Demo User 3'' 5
                  ''Excellent functionality and easy to use. Highly recommended!''
                  (example_clock 2) 22 ''Google Play Store'' ]"
  have u: "request_url ?req = ''https://play.google.com/store/apps/details?id=com.demo.app''"
    by (simp add: request_url_def str_strip_def is_space_def)
  have w: "well_formed example_offline (request_url ?req)"
    by (simp add: u well_formed_def example_offline_def example_urlparse_def)
  have wb: "well_formed example_offline (request_url ?bad)"
    by (simp add: request_url_def str_strip_def is_space_def well_formed_def
        example_offline_def example_urlparse_def)
  have d: "detect_platform (request_url ?req) = Some google_play"
    by (simp add: u detect_platform_def)
  have db: "detect_platform (request_url ?bad) = Some google_play"
    by (simp add: request_url_def str_strip_def is_space_def detect_platform_def)
  have x: "extract_app_id (request_url ?req) (Some google_play) = Some ''com.demo.app''"
    by (simp add: u extract_app_id_def match_id_eq_def)
  have xb: "extract_app_id (request_url ?bad) (Some google_play)
              = Some (''a'' @ [CHR 0x00] @ ''b'')"
    by (simp add: request_url_def str_strip_def is_space_def extract_app_id_def match_id_eq_def)
  have s: "scrape_reviews example_offline (request_url ?req) (request_max_reviews ?req) 0
             = Inr (?r # ?rs, 3)"
    by (rule example_demo_scrape [OF d x])
  have sb: "scrape_reviews example_offline (request_url ?bad) (request_max_reviews ?bad) 0
             = Inr (?b # ?bs, 3)"
    by (rule example_demo_scrape [OF db xb])
  have n: "app_name ?r = ''Demo App (com.demo.app)''"
    by (simp add: demo_review_def)
  have c: "now example_offline 3 = example_clock 3"
    by (simp add: example_offline_def)
  have f: "make_filename (app_name ?r) (now example_offline 3)
             = ''reviews_Demo_App_(com.demo.app)_20261103_170403.csv''"
    by (simp add: n c make_filename_def example_stamp sanitize_def str_replace_def)
  have t: "to_csv example_offline ''/tmp/reviews_Demo_App_(com.demo.app)_20261103_170403.csv''
             (?r # ?rs) = None"
    by (simp add: example_offline_def example_to_csv_def)
  have tb: "to_csv example_offline
              (''/tmp/'' @ make_filename (app_name ?b) (now example_offline 3)) (?b # ?bs)
              = Some (ValueError ''embedded null byte'')"
    by (simp add: c make_filename_def example_stamp sanitize_def str_replace_def
        demo_review_def example_offline_def example_to_csv_def)
  have v: "valid_datetime (now example_offline 3)"
    by (simp add: c valid_datetime_def example_clock_def)
  note ok = scrape_filename [OF w s]
  note bad = scrape_filename [OF wb sb]
  have wr: "snd (scrape example_offline ?req)
              = Some (''/tmp/reviews_Demo_App_(com.demo.app)_20261103_170403.csv'', ?r # ?rs)"
    using ok [THEN conjunct1] by (simp add: f)
  have st: "status (fst (scrape example_offline ?req)) = 200 \<and>
     (\<exists>res. body (fst (scrape example_offline ?req)) = Success res \<and>
          filename res = ''reviews_Demo_App_(com.demo.app)_20261103_170403.csv'')"
    using ok [THEN conjunct2, THEN conjunct2, THEN conjunct1] t by (simp add: f)
  have ts: "strftime_compact (now example_offline 3) = ''20261103_170403''"
    by (simp add: c example_stamp)
  have rd: "read_nat ''2026'' = year (now example_offline 3) \<and>
            read_nat ''03'' = second (now example_offline 3)"
    using ok [THEN conjunct2, THEN conjunct2, THEN conjunct2, THEN conjunct2, THEN conjunct2,
      THEN conjunct2, THEN conjunct2, THEN conjunct2] v
    by (simp add: ts)
  have fb: "fst (scrape example_offline ?bad)
     = \<lparr> status = 500, body = Error ''embedded null byte'' \<rparr>"
    using bad [THEN conjunct2, THEN conjunct2, THEN conjunct2, THEN conjunct1] tb by simp
  from w s n t wr st v ts rd wb fb show ?thesis by blast
qed

section \<open>A maximum of zero or None\<close>

text \<open>
  C10. On the Google Play path, when the library answers and \<open>max_reviews\<close> is \<open>None\<close>
  or 0, the truncation guard leaves the upstream result as it is: the fetcher returns
  one record for every upstream review. A request whose body gives \<open>max_reviews\<close> as 0
  (or \<open>null\<close>) for a Google Play URL reaches the fetcher with that value: the scrape
  yields every upstream review, all of them are handed to the CSV writer, and when the
  write returns the response is a success whose \<open>review_count\<close> is the number of
  upstream reviews.
\<close>

theorem falsy_max_reviews_disables_limit:
  assumes "max_reviews = None \<or> max_reviews = Some 0"
    and "google_play_scraper e = Inr gm" and "gp_app gm app_id = Inr info"
    and "gp_reviews_all gm app_id = Inr result"
  shows "limit_reviews max_reviews result = result \<and>
         fst (scrape_google_play_reviews e app_id max_reviews k)
           = map (gp_record (title info)) result \<and>
         length (fst (scrape_google_play_reviews e app_id max_reviews k)) = length result \<and>
         (well_formed e (request_url req) \<and> max_reviews_field req = Some max_reviews \<and>
          detect_platform (request_url req) = Some google_play \<and>
          extract_app_id (request_url req) (Some google_play) = Some app_id \<and> result \<noteq> []
            \<longrightarrow> scrape_reviews e (request_url req) (request_max_reviews req) 0
                  = Inr (map (gp_record (title info)) result, 0) \<and>
                snd (scrape e req)
                  = Some (''/tmp/'' @ make_filename (title info) (now e 0),
                          map (gp_record (title info)) result) \<and>
                (to_csv e (''/tmp/'' @ make_filename (title info) (now e 0))
                   (map (gp_record (title info)) result) = None
                   \<longrightarrow> status (fst (scrape e req)) = 200 \<and>
                       (\<exists>res. body (fst (scrape e req)) = Success res \<and>
                              review_count res = length result)))"
proof -
  have fetch: "scrape_google_play_reviews e app_id max_reviews k
                 = (map (gp_record (title info)) result, k)" for k
    using assms by (simp add: google_play_succeeds limit_reviews_falsy)
  have http: "scrape_reviews e (request_url req) (request_max_reviews req) 0
                  = Inr (map (gp_record (title info)) result, 0) \<and>
                snd (scrape e req)
                  = Some (''/tmp/'' @ make_filename (title info) (now e 0),
                          map (gp_record (title info)) result) \<and>
                (to_csv e (''/tmp/'' @ make_filename (title info) (now e 0))
                   (map (gp_record (title info)) result) = None
                   \<longrightarrow> status (fst (scrape e req)) = 200 \<and>
                       (\<exists>res. body (fst (scrape e req)) = Success res \<and>
                              review_count res = length result))"
    if h: "well_formed e (request_url req) \<and> max_reviews_field req = Some max_reviews \<and>
          detect_platform (request_url req) = Some google_play \<and>
          extract_app_id (request_url req) (Some google_play) = Some app_id \<and> result \<noteq> []"
  proof -
    from h have w: "well_formed e (request_url req)" by simp
    from h have m: "request_max_reviews req = max_reviews"
      by (simp add: request_max_reviews_def)
    from h have sr: "scrape_reviews e (request_url req) (request_max_reviews req) 0
                   = Inr (map (gp_record (title info)) result, 0)"
      by (simp add: scrape_reviews_google_play m fetch)
    from h obtain v vs where res: "result = v # vs" by (cases result) auto
    have sr': "scrape_reviews e (request_url req) (request_max_reviews req) 0
                 = Inr (gp_record (title info) v # map (gp_record (title info)) vs, 0)"
      using sr res by simp
    have n: "app_name (gp_record (title info) v) = title info"
      by (simp add: gp_record_def)
    have wr: "snd (scrape e req)
                  = Some (''/tmp/'' @ make_filename (title info) (now e 0),
                          map (gp_record (title info)) result)"
      using scrape_written(1) [OF w sr'] by (simp add: n res)
    have ok: "status (fst (scrape e req)) = 200 \<and>
                       (\<exists>res. body (fst (scrape e req)) = Success res \<and>
                              review_count res = length result)"
      if "to_csv e (''/tmp/'' @ make_filename (title info) (now e 0))
                   (map (gp_record (title info)) result) = None"
      using scrape_written(2) [OF w sr'] that by (simp add: n res)
    from sr wr ok show ?thesis by blast
  qed
  from assms(1) have "limit_reviews max_reviews result = result" by (rule limit_reviews_falsy)
  with fetch [of k] http show ?thesis by simp
qed

theorem falsy_max_reviews_disables_limit_witness:
  "(\<exists>gm info. google_play_scraper example_live = Inr gm \<and>
      gp_app gm ''com.demo.app'' = Inr info \<and>
      gp_reviews_all gm ''com.demo.app'' = Inr example_gp_reviews) \<and>
   length example_gp_reviews = 3 \<and>
   length (fst (scrape_google_play_reviews example_live ''com.demo.app'' (Some 0) 0)) = 3 \<and>
   length (fst (scrape_google_play_reviews example_live ''com.demo.app'' None 0)) = 3 \<and>
   well_formed example_live
     (request_url \<lparr> url_field = Some ''https://play.google.com/store/apps/details?id=com.demo.app'',
                    max_reviews_field = Some (Some 0) \<rparr>) \<and>
   detect_platform
     (request_url \<lparr> url_field = Some ''https://play.google.com/store/apps/details?id=com.demo.app'',
                    max_reviews_field = Some (Some 0) \<rparr>) = Some google_play \<and>
   extract_app_id
     (request_url \<lparr> url_field = Some ''https://play.google.com/store/apps/details?id=com.demo.app'',
                    max_reviews_field = Some (Some 0) \<rparr>) (Some google_play)
     = Some ''com.demo.app'' \<and>
   (\<exists>rows. snd (scrape example_live
       \<lparr> url_field = Some ''https://play.google.com/store/apps/details?id=com.demo.app'',
         max_reviews_field = Some (Some 0) \<rparr>)
       = Some (''/tmp/'' @ make_filename ''Example App'' (example_clock 0), rows) \<and>
      length rows = 3 \<and>
      to_csv example_live (''/tmp/'' @ make_filename ''Example App'' (example_clock 0)) rows
        = None) \<and>
   status (fst (scrape example_live
     \<lparr> url_field = Some ''https://play.google.com/store/apps/details?id=com.demo.app'',
       max_reviews_field = Some (Some 0) \<rparr>)) = 200 \<and>
   (\<exists>res. body (fst (scrape example_live
       \<lparr> url_field = Some ''https://play.google.com/store/apps/details?id=com.demo.app'',
         max_reviews_field = Some (Some 0) \<rparr>)) = Success res \<and> review_count res = 3)"
proof -
  let ?req = "\<lparr> url_field = Some ''https://play.google.com/store/apps/details?id=com.demo.app'',
                max_reviews_field = Some (Some (0 :: int)) \<rparr>"
  let ?info = "\<lparr> title = ''Example App'' \<rparr>"
  define gm where "gm = \<lparr> gp_app = (\<lambda>app_id :: string. Inr \<lparr> title = ''Example App'' \<rparr> :: exn + app_info),
               gp_reviews_all = (\<lambda>app_id :: string. Inr example_gp_reviews :: exn + gp_review list) \<rparr>"
  have g: "google_play_scraper example_live = Inr gm"
    "gp_app gm ''com.demo.app'' = Inr ?info"
    "gp_reviews_all gm ''com.demo.app'' = Inr example_gp_reviews"
    by (simp_all add: example_live_def gm_def)
  have len: "length example_gp_reviews = 3" and ne: "example_gp_reviews \<noteq> []"
    by (simp_all add: example_gp_reviews_def)
  have u: "request_url ?req = ''https://play.google.com/store/apps/details?id=com.demo.app''"
    by (simp add: request_url_def str_strip_def is_space_def)
  have w: "well_formed example_live (request_url ?req)"
    by (simp add: u well_formed_def example_live_def example_urlparse_def)
  have d: "detect_platform (request_url ?req) = Some google_play"
    by (simp add: u detect_platform_def)
  have x: "extract_app_id (request_url ?req) (Some google_play) = Some ''com.demo.app''"
    by (simp add: u extract_app_id_def match_id_eq_def)
  have f: "max_reviews_field ?req = Some (Some 0)" by simp
  have c: "now example_live 0 = example_clock 0" by (simp add: example_live_def)
  have t: "to_csv example_live (''/tmp/'' @ make_filename ''Example App'' (example_clock 0)) rows
             = None" for rows
    by (simp add: example_live_def example_to_csv_def make_filename_def sanitize_def
        str_replace_def strftime_compact_def example_clock_def pad2_def show_nat.simps)
  note zero = falsy_max_reviews_disables_limit [where max_reviews = "Some 0" and k = 0
      and req = ?req, OF _ g]
  note none = falsy_max_reviews_disables_limit [where max_reviews = None and k = 0
      and req = ?req, OF _ g]
  have a: "length (fst (scrape_google_play_reviews example_live ''com.demo.app'' (Some 0) 0)) = 3"
    using zero len by simp
  have b: "length (fst (scrape_google_play_reviews example_live ''com.demo.app'' None 0)) = 3"
    using none len by simp
  have wr: "snd (scrape example_live ?req)
       = Some (''/tmp/'' @ make_filename ''Example App'' (example_clock 0),
               map (gp_record ''Example App'') example_gp_reviews)"
    using zero w d x f ne by (simp add: c)
  have st: "status (fst (scrape example_live ?req)) = 200 \<and>
     (\<exists>res. body (fst (scrape example_live ?req)) = Success res \<and> review_count res = 3)"
    using zero w d x f ne len t by (simp add: c)
  from g have g': "\<exists>gm info. google_play_scraper example_live = Inr gm \<and>
      gp_app gm ''com.demo.app'' = Inr info \<and>
      gp_reviews_all gm ''com.demo.app'' = Inr example_gp_reviews"
    by blast
  have rows: "\<exists>rows. snd (scrape example_live ?req)
       = Some (''/tmp/'' @ make_filename ''Example App'' (example_clock 0), rows) \<and>
      length rows = 3 \<and>
      to_csv example_live (''/tmp/'' @ make_filename ''Example App'' (example_clock 0)) rows
        = None"
    using wr len t by simp
  from g' len a b w d x rows st show ?thesis by blast
qed

end
